theory Spec2Isabelle
  imports Main
begin

section \<open>Text\<close>

text \<open>
  A JavaScript string is modelled as the list of its characters, each an 8-bit \<^typ>\<open>char\<close>
  (text outside ASCII is its UTF-8 byte sequence). The character classes of the regular
  expressions in the sources are written out as the lists of their members; the white-space
  class and case folding are the ASCII ones.
\<close>

definition dquote :: char where
  "dquote = CHR 0x22"

definition backslash :: char where
  "backslash = CHR 0x5C"

definition newline :: char where
  "newline = CHR 0x0A"

definition carriage_return :: char where
  "carriage_return = CHR 0x0D"

definition lower_letters :: string where
  "lower_letters = ''abcdefghijklmnopqrstuvwxyz''"

definition upper_letters :: string where
  "upper_letters = ''ABCDEFGHIJKLMNOPQRSTUVWXYZ''"

definition digit_chars :: string where
  "digit_chars = ''0123456789''"

definition white_space :: string where
  "white_space = [CHR 0x20, CHR 0x09, CHR 0x0A, CHR 0x0B, CHR 0x0C, CHR 0x0D]"

definition is_space :: "char \<Rightarrow> bool" where
  "is_space c = (c \<in> set white_space)"

text \<open>\<^verbatim>\<open>String.prototype.toLowerCase\<close>, on ASCII letters.\<close>

definition lower_char :: "char \<Rightarrow> char" where
  "lower_char c = (case map_of (zip upper_letters lower_letters) c of Some l \<Rightarrow> l | None \<Rightarrow> c)"

definition toLowerCase :: "string \<Rightarrow> string" where
  "toLowerCase s = map lower_char s"

text \<open>\<^verbatim>\<open>String.prototype.trim\<close>.\<close>

definition trim :: "string \<Rightarrow> string" where
  "trim s = rev (dropWhile is_space (rev (dropWhile is_space s)))"

text \<open>\<^verbatim>\<open>s.startsWith(p)\<close>, and the same test ignoring case (a literal under the \<^verbatim>\<open>i\<close> flag).\<close>

definition startsWith :: "string \<Rightarrow> string \<Rightarrow> bool" where
  "startsWith s p = (take (length p) s = p)"

definition startsWith_ci :: "string \<Rightarrow> string \<Rightarrow> bool" where
  "startsWith_ci s p = (toLowerCase (take (length p) s) = toLowerCase p)"

text \<open>
  \<^verbatim>\<open>/lit/.test(s)\<close> for a literal pattern: the pattern occurs somewhere in \<open>s\<close>. An
  alternation of literals is a disjunction of such tests.
\<close>

fun str_includes :: "string \<Rightarrow> string \<Rightarrow> bool" where
  "str_includes [] p = (p = [])"
| "str_includes (c # cs) p = (startsWith (c # cs) p \<or> str_includes cs p)"

definition includes_any :: "string \<Rightarrow> string list \<Rightarrow> bool" where
  "includes_any s ps = list_ex (str_includes s) ps"

definition includes_ci :: "string \<Rightarrow> string \<Rightarrow> bool" where
  "includes_ci s p = str_includes (toLowerCase s) (toLowerCase p)"

text \<open>\<^verbatim>\<open>lines.join("\n")\<close>.\<close>

fun join_lines :: "string list \<Rightarrow> string" where
  "join_lines [] = []"
| "join_lines [l] = l"
| "join_lines (l # ls) = l @ newline # join_lines ls"

text \<open>
  \<^verbatim>\<open>s.split(/\r?\n/)\<close>: the text is cut at every line feed, and a carriage return right
  before the line feed belongs to the separator. The accumulator holds the current piece
  reversed.
\<close>

fun split_acc :: "string \<Rightarrow> string \<Rightarrow> string list" where
  "split_acc acc [] = [rev acc]"
| "split_acc acc (c # cs) =
     (if c = newline
      then rev (case acc of [] \<Rightarrow> [] | a # as \<Rightarrow> if a = carriage_return then as else a # as)
           # split_acc [] cs
      else split_acc (c # acc) cs)"

definition split_lines :: "string \<Rightarrow> string list" where
  "split_lines s = split_acc [] s"

text \<open>\<^verbatim>\<open>s.split(/\r?\n/).filter(Boolean)\<close>: the non-empty lines.\<close>

definition nonempty_lines :: "string \<Rightarrow> string list" where
  "nonempty_lines s = filter (\<lambda>l. l \<noteq> []) (split_lines s)"

section \<open>Command Runner: argument quoting\<close>

text \<open>
  \<^verbatim>\<open>quoteArg\<close> (the same function in provision.ts, deploy.ts and the credential verifier):
  the test \<^verbatim>\<open>/^[a-zA-Z0-9._:/\\-]+$/\<close> accepts a non-empty argument whose characters are
  all letters, digits or one of \<^verbatim>\<open>. _ : / \ -\<close>; the class of the source contains the
  backslash. Any other argument is wrapped in double quotes, each inner double quote
  replaced by backslash and double quote.
\<close>

definition arg_char :: "char \<Rightarrow> bool" where
  "arg_char c = (c \<in> set (lower_letters @ upper_letters @ digit_chars
                    @ [CHR ''.'', CHR ''_'', CHR '':'', CHR ''/'', backslash, CHR ''-'']))"

definition escape_quotes :: "string \<Rightarrow> string" where
  "escape_quotes arg = concat (map (\<lambda>c. if c = dquote then [backslash, dquote] else [c]) arg)"

definition quoteArg :: "string \<Rightarrow> string" where
  "quoteArg arg =
     (if arg \<noteq> [] \<and> list_all arg_char arg then arg
      else dquote # escape_quotes arg @ [dquote])"

text \<open>The class as the specification writes it, \<^verbatim>\<open>[A-Za-z0-9._:/-]\<close>: no backslash.\<close>

definition spec_arg_char :: "char \<Rightarrow> bool" where
  "spec_arg_char c = (c \<in> set (upper_letters @ lower_letters @ digit_chars
                    @ [CHR ''.'', CHR ''_'', CHR '':'', CHR ''/'', CHR ''-'']))"

section \<open>Credential Verifier: project endpoint verification\<close>

text \<open>
  \<^verbatim>\<open>AuthCheckResult\<close> and \<^verbatim>\<open>CommandResult\<close> are the same interface
  \<^verbatim>\<open>{ ok: boolean; output: string }\<close> (the field \<^verbatim>\<open>output\<close> is \<open>output_str\<close> here).
\<close>

record CommandResult =
  ok :: bool
  output_str :: string

type_synonym AuthCheckResult = CommandResult

text \<open>
  The platform's URL parser \<^verbatim>\<open>new URL(s)\<close> is not part of the repository: it is a
  parameter \<open>newURL\<close> of the functions that call it, \<open>None\<close> where the constructor throws.
  Only the two components the sources read are kept.
\<close>

record URL =
  protocol :: string
  hostname :: string

text \<open>
  One HTTPS GET and what comes back: either the response ends, with its status code (which
  may be undefined) and body, or the request emits \<^verbatim>\<open>error\<close> with an \<^verbatim>\<open>Error\<close> whose
  message is given, or the call of \<^verbatim>\<open>https.request\<close> itself throws (as it does for a protocol
  other than \<^verbatim>\<open>https:\<close>). The network is a parameter \<open>net\<close>.
\<close>

record request =
  req_protocol :: string
  req_hostname :: string
  req_path :: string
  req_headers :: "(string \<times> string) list"

datatype http_outcome = Response "nat option" string | RequestError string | RequestThrows

text \<open>The value \<^verbatim>\<open>requestOnce\<close> resolves with: \<^verbatim>\<open>{ status, snippet, error? }\<close>. When
  \<^verbatim>\<open>https.request\<close> throws inside the promise's executor the promise is rejected instead
  (\<open>None\<close>).\<close>

record probe =
  probe_status :: nat
  probe_snippet :: string
  probe_error :: "string option"

definition probe_request :: "URL \<Rightarrow> string \<Rightarrow> string \<Rightarrow> bool \<Rightarrow> request" where
  "probe_request parsedUrl publishableKey path withAuthorization =
     \<lparr>req_protocol = protocol parsedUrl, req_hostname = hostname parsedUrl, req_path = path,
      req_headers = [(''apikey'', publishableKey), (''Accept'', ''application/json'')]
        @ (if withAuthorization then [(''Authorization'', ''Bearer '' @ publishableKey)] else [])\<rparr>"

definition status_or_0 :: "nat option \<Rightarrow> nat" where
  "status_or_0 statusCode = (case statusCode of Some n \<Rightarrow> n | None \<Rightarrow> 0)"

definition requestOnce :: "(request \<Rightarrow> http_outcome) \<Rightarrow> URL \<Rightarrow> string \<Rightarrow> string \<Rightarrow> bool \<Rightarrow> probe option" where
  "requestOnce net parsedUrl publishableKey path withAuthorization =
     (case net (probe_request parsedUrl publishableKey path withAuthorization) of
        Response statusCode body \<Rightarrow>
          Some \<lparr>probe_status = status_or_0 statusCode,
                probe_snippet = take 300 (trim body), probe_error = None\<rparr>
      | RequestError message \<Rightarrow>
          Some \<lparr>probe_status = 0, probe_snippet = [], probe_error = Some message\<rparr>
      | RequestThrows \<Rightarrow> None)"

text \<open>
  \<^verbatim>\<open>if (primary.error)\<close> tests the message for truthiness: an absent message and the empty
  message are both falsy.
\<close>

definition truthy_error :: "probe \<Rightarrow> bool" where
  "truthy_error p = (case probe_error p of None \<Rightarrow> False | Some m \<Rightarrow> m \<noteq> [])"

definition is_2xx :: "nat \<Rightarrow> bool" where
  "is_2xx s = (200 \<le> s \<and> s < 300)"

definition is_denied :: "nat \<Rightarrow> bool" where
  "is_denied s = (s = 401 \<or> s = 403)"

text \<open>Decimal rendering of a number in a template string.\<close>

fun decimal :: "nat \<Rightarrow> string" where
  "decimal n = (if n < 10 then [digit_chars ! n] else decimal (n div 10) @ [digit_chars ! (n mod 10)])"

definition verified_msg :: string where
  "verified_msg = ''Supabase Project URL and Publishable API Key verified.''"

definition reachable_msg :: string where
  "reachable_msg = ''Supabase project endpoint reachable and key accepted for gateway access.''"

definition request_failed_msg :: "probe \<Rightarrow> string" where
  "request_failed_msg p = ''Supabase Project API request failed: '' @ (case probe_error p of Some m \<Rightarrow> m | None \<Rightarrow> [])"

text \<open>
  \<^verbatim>\<open>verifySupabaseProjectApi\<close>. The promise resolves with a result or, when a probe's promise
  is rejected inside the unguarded \<^verbatim>\<open>async\<close> block, never settles (\<open>None\<close>). The outcome is
  paired with the requests handed to \<^verbatim>\<open>https.request\<close>, in order.
\<close>

definition verifySupabaseProjectApi ::
  "(string \<Rightarrow> URL option) \<Rightarrow> (request \<Rightarrow> http_outcome) \<Rightarrow> string \<Rightarrow> string
     \<Rightarrow> AuthCheckResult option \<times> request list" where
  "verifySupabaseProjectApi newURL net projectUrl publishableKey =
     (case newURL projectUrl of
        None \<Rightarrow> (Some \<lparr>ok = False, output_str = ''Invalid Supabase Project URL.''\<rparr>, [])
      | Some parsedUrl \<Rightarrow>
          (let sent1 = [probe_request parsedUrl publishableKey ''/auth/v1/settings'' False]
           in case requestOnce net parsedUrl publishableKey ''/auth/v1/settings'' False of
                None \<Rightarrow> (None, sent1)
              | Some primary \<Rightarrow>
                  if truthy_error primary
                    then (Some \<lparr>ok = False, output_str = request_failed_msg primary\<rparr>, sent1)
                  else if is_2xx (probe_status primary)
                    then (Some \<lparr>ok = True, output_str = verified_msg\<rparr>, sent1)
                  else if probe_status primary \<noteq> 401 \<and> probe_status primary \<noteq> 403
                    then (Some \<lparr>ok = True, output_str = reachable_msg\<rparr>, sent1)
                  else
                    (let sent2 = sent1 @ [probe_request parsedUrl publishableKey ''/rest/v1/'' True]
                     in case requestOnce net parsedUrl publishableKey ''/rest/v1/'' True of
                          None \<Rightarrow> (None, sent2)
                        | Some fallback \<Rightarrow>
                            if truthy_error fallback
                              then (Some \<lparr>ok = False, output_str = request_failed_msg fallback\<rparr>, sent2)
                            else if is_2xx (probe_status fallback)
                              then (Some \<lparr>ok = True, output_str = verified_msg\<rparr>, sent2)
                            else if probe_status fallback \<noteq> 401 \<and> probe_status fallback \<noteq> 403
                              then (Some \<lparr>ok = True, output_str = reachable_msg\<rparr>, sent2)
                            else
                              (let reason =
                                     (if probe_snippet fallback \<noteq> [] then probe_snippet fallback
                                      else if probe_snippet primary \<noteq> [] then probe_snippet primary
                                      else ''HTTP '' @ decimal (if probe_status fallback \<noteq> 0
                                                                then probe_status fallback
                                                                else probe_status primary))
                               in (Some \<lparr>ok = False,
                                         output_str = ''Supabase Project API verification failed: '' @ reason\<rparr>,
                                   sent2)))))"

text \<open>The outcome of a verification: resolved with \<^verbatim>\<open>ok = true\<close>, resolved with
  \<^verbatim>\<open>ok = false\<close>, or never settled.\<close>

definition verified :: "AuthCheckResult option \<times> request list \<Rightarrow> bool" where
  "verified V = (case fst V of Some a \<Rightarrow> ok a | None \<Rightarrow> False)"

definition rejected :: "AuthCheckResult option \<times> request list \<Rightarrow> bool" where
  "rejected V = (case fst V of Some a \<Rightarrow> \<not> ok a | None \<Rightarrow> False)"


text \<open>A URL parser that knows one host under two protocols, a network that answers every
  request alike, one that lets \<^verbatim>\<open>https.request\<close> throw on a protocol other than \<^verbatim>\<open>https:\<close>,
  and one that answers by path, for the concrete runs below.\<close>

definition net_always :: "http_outcome \<Rightarrow> request \<Rightarrow> http_outcome" where
  "net_always answer r = answer"

definition https_only :: "(request \<Rightarrow> http_outcome) \<Rightarrow> request \<Rightarrow> http_outcome" where
  "https_only net r = (if req_protocol r = ''https:'' then net r else RequestThrows)"

definition net_by_path :: "http_outcome \<Rightarrow> http_outcome \<Rightarrow> request \<Rightarrow> http_outcome" where
  "net_by_path settings rest r = (if req_path r = ''/auth/v1/settings'' then settings else rest)"


definition sample_newURL :: "string \<Rightarrow> URL option" where
  "sample_newURL s =
     (if s = ''https://abcdefghijklmnopqrst.supabase.co''
      then Some \<lparr>protocol = ''https:'', hostname = ''abcdefghijklmnopqrst.supabase.co''\<rparr>
      else if s = ''http://abcdefghijklmnopqrst.supabase.co''
      then Some \<lparr>protocol = ''http:'', hostname = ''abcdefghijklmnopqrst.supabase.co''\<rparr>
      else None)"

section \<open>Run State Store\<close>

datatype RunStatus = In_progress | Complete | Failed | Paused_at_auth

datatype BackendStack = Flask | Fastapi | Django

datatype FrontendStack = React_vite

record Stack =
  frontend :: FrontendStack
  backend :: BackendStack

record Config =
  project_name :: string
  stack :: Stack

record Resources =
  github_repo :: "string option"
  vercel_project_id :: "string option"
  supabase_ref :: "string option"

record Credentials =
  vercel_token :: "string option"
  supabase_access_token :: "string option"
  supabase_url :: "string option"
  supabase_publishable_key :: "string option"

record ManifoldState =
  status :: RunStatus
  state_version :: nat
  run_id :: string
  current_phase :: string
  config :: Config
  resources :: Resources
  credentials :: Credentials
  rollback_stack :: "string list"

text \<open>
  \<^verbatim>\<open>ManifoldStatePatch\<close>: every key is optional. A partial object over the keys of
  \<^verbatim>\<open>resources\<close> or \<^verbatim>\<open>credentials\<close> is a map from the key to the value given for it
  (a string or \<^verbatim>\<open>null\<close>); a key outside the map's domain is not mentioned by the patch.
\<close>

datatype resource_key = Github_repo | Vercel_project_id | Supabase_ref

datatype credential_key = Vercel_token | Supabase_access_token | Supabase_url | Supabase_publishable_key

record StackPatch =
  patch_frontend :: "FrontendStack option"
  patch_backend :: "BackendStack option"

record ConfigPatch =
  patch_project_name :: "string option"
  patch_stack :: "StackPatch option"

record ManifoldStatePatch =
  patch_status :: "RunStatus option"
  patch_state_version :: "nat option"
  patch_run_id :: "string option"
  patch_current_phase :: "string option"
  patch_config :: "ConfigPatch option"
  patch_resources :: "(resource_key \<rightharpoonup> string option) option"
  patch_credentials :: "(credential_key \<rightharpoonup> string option) option"
  patch_rollback_stack :: "string list option"

text \<open>The patch \<^verbatim>\<open>{}\<close>; the patches of the orchestrator update it field by field.\<close>

definition no_patch :: ManifoldStatePatch where
  "no_patch = \<lparr>patch_status = None, patch_state_version = None, patch_run_id = None,
     patch_current_phase = None, patch_config = None, patch_resources = None,
     patch_credentials = None, patch_rollback_stack = None\<rparr>"

definition createDefaultState :: "string \<Rightarrow> string \<Rightarrow> BackendStack \<Rightarrow> ManifoldState" where
  "createDefaultState now projectName backend' =
     \<lparr>status = In_progress, state_version = 1, run_id = now, current_phase = ''0_env_check'',
      config = \<lparr>project_name = projectName, stack = \<lparr>frontend = React_vite, backend = backend'\<rparr>\<rparr>,
      resources = \<lparr>github_repo = None, vercel_project_id = None, supabase_ref = None\<rparr>,
      credentials = \<lparr>vercel_token = None, supabase_access_token = None, supabase_url = None,
                     supabase_publishable_key = None\<rparr>,
      rollback_stack = []\<rparr>"

text \<open>A spread \<^verbatim>\<open>{ ...current, ...partial }\<close>, one key at a time: the value the partial object
  gives the key, or else the current one.\<close>

definition spread :: "'a \<Rightarrow> 'a option \<Rightarrow> 'a" where
  "spread current given = (case given of None \<Rightarrow> current | Some v \<Rightarrow> v)"

definition resource_of :: "Resources \<Rightarrow> resource_key \<Rightarrow> string option" where
  "resource_of r k = (case k of Github_repo \<Rightarrow> github_repo r
                      | Vercel_project_id \<Rightarrow> vercel_project_id r
                      | Supabase_ref \<Rightarrow> supabase_ref r)"

definition credential_of :: "Credentials \<Rightarrow> credential_key \<Rightarrow> string option" where
  "credential_of c k = (case k of Vercel_token \<Rightarrow> vercel_token c
                        | Supabase_access_token \<Rightarrow> supabase_access_token c
                        | Supabase_url \<Rightarrow> supabase_url c
                        | Supabase_publishable_key \<Rightarrow> supabase_publishable_key c)"

definition spread_stack :: "Stack \<Rightarrow> StackPatch option \<Rightarrow> Stack" where
  "spread_stack current given =
     (case given of None \<Rightarrow> current
      | Some p \<Rightarrow> \<lparr>frontend = spread (frontend current) (patch_frontend p),
                   backend = spread (backend current) (patch_backend p)\<rparr>)"

definition spread_config :: "Config \<Rightarrow> ConfigPatch option \<Rightarrow> Config" where
  "spread_config current given =
     \<lparr>project_name = (case given of None \<Rightarrow> project_name current
                        | Some p \<Rightarrow> spread (project_name current) (patch_project_name p)),
      stack = spread_stack (stack current) (case given of None \<Rightarrow> None | Some p \<Rightarrow> patch_stack p)\<rparr>"

definition spread_resources :: "Resources \<Rightarrow> (resource_key \<rightharpoonup> string option) option \<Rightarrow> Resources" where
  "spread_resources current given =
     (case given of None \<Rightarrow> current
      | Some p \<Rightarrow> \<lparr>github_repo = spread (github_repo current) (p Github_repo),
                   vercel_project_id = spread (vercel_project_id current) (p Vercel_project_id),
                   supabase_ref = spread (supabase_ref current) (p Supabase_ref)\<rparr>)"

definition spread_credentials :: "Credentials \<Rightarrow> (credential_key \<rightharpoonup> string option) option \<Rightarrow> Credentials" where
  "spread_credentials current given =
     (case given of None \<Rightarrow> current
      | Some p \<Rightarrow> \<lparr>vercel_token = spread (vercel_token current) (p Vercel_token),
                   supabase_access_token = spread (supabase_access_token current) (p Supabase_access_token),
                   supabase_url = spread (supabase_url current) (p Supabase_url),
                   supabase_publishable_key =
                     spread (supabase_publishable_key current) (p Supabase_publishable_key)\<rparr>)"

text \<open>The object \<^verbatim>\<open>next\<close> that \<^verbatim>\<open>StateManager.patch\<close> builds from the state it read.\<close>

definition patch_next :: "ManifoldState \<Rightarrow> ManifoldStatePatch \<Rightarrow> ManifoldState" where
  "patch_next current p =
     \<lparr>status = spread (status current) (patch_status p),
      state_version = spread (state_version current) (patch_state_version p),
      run_id = spread (run_id current) (patch_run_id p),
      current_phase = spread (current_phase current) (patch_current_phase p),
      config = spread_config (config current) (patch_config p),
      resources = spread_resources (resources current) (patch_resources p),
      credentials = spread_credentials (credentials current) (patch_credentials p),
      rollback_stack = (case patch_rollback_stack p of None \<Rightarrow> rollback_stack current | Some s \<Rightarrow> s)\<rparr>"

text \<open>
  The state file holds a state or is missing or unreadable (\<open>None\<close>). \<^verbatim>\<open>read\<close> throws on
  the latter; \<^verbatim>\<open>patch\<close> reads, builds \<^verbatim>\<open>next\<close>, writes it over the file and returns it.
\<close>

datatype store_error = ReadFailed

definition read_state :: "ManifoldState option \<Rightarrow> store_error + ManifoldState" where
  "read_state file = (case file of None \<Rightarrow> Inl ReadFailed | Some s \<Rightarrow> Inr s)"

definition patch :: "ManifoldState option \<Rightarrow> ManifoldStatePatch \<Rightarrow> store_error + (ManifoldState option \<times> ManifoldState)" where
  "patch file p =
     (case read_state file of
        Inl e \<Rightarrow> Inl e
      | Inr current \<Rightarrow> (let next = patch_next current p in Inr (Some next, next)))"


text \<open>The patch \<^verbatim>\<open>{ credentials: cs }\<close>.\<close>

definition credentials_patch :: "(credential_key \<rightharpoonup> string option) \<Rightarrow> ManifoldStatePatch" where
  "credentials_patch cs = no_patch\<lparr>patch_credentials := Some cs\<rparr>"

section \<open>Command Runner\<close>

text \<open>
  \<^verbatim>\<open>child_process.exec\<close> is the process-spawning primitive: a parameter \<open>sh\<close> that maps
  a call (command line, working directory, timeout in milliseconds) to what the callback
  receives (whether \<^verbatim>\<open>error\<close> is set, and the two output streams). Within one
  provisioning run no call is issued twice, so a function of the call describes every
  behaviour of the shell.
\<close>

record exec_call =
  commandLine :: string
  cwd :: string
  timeoutMs :: int

record exec_result =
  exec_error :: bool
  stdout :: string
  stderr :: string

type_synonym shell = "exec_call \<Rightarrow> exec_result"

text \<open>\<^verbatim>\<open>args.join(" ")\<close>.\<close>

fun join_spaces :: "string list \<Rightarrow> string" where
  "join_spaces [] = []"
| "join_spaces [a] = a"
| "join_spaces (a # as) = a @ CHR 0x20 # join_spaces as"

definition command_line :: "string \<Rightarrow> string list \<Rightarrow> string" where
  "command_line command args = trim (command @ '' '' @ join_spaces (map quoteArg args))"

text \<open>
  The arrays \<^verbatim>\<open>output\<close> and \<^verbatim>\<open>rollbackStack\<close> that the provisioner's functions mutate in
  place, together with the calls handed to the shell so far, in order.
\<close>

record prov_state =
  output_lines :: "string list"
  rollbackStack :: "string list"
  executed :: "exec_call list"

definition push_output :: "string \<Rightarrow> prov_state \<Rightarrow> prov_state" where
  "push_output line st = st\<lparr>output_lines := output_lines st @ [line]\<rparr>"

definition push_rollback :: "string \<Rightarrow> prov_state \<Rightarrow> prov_state" where
  "push_rollback command st = st\<lparr>rollbackStack := rollbackStack st @ [command]\<rparr>"

definition exec_in :: "shell \<Rightarrow> exec_call \<Rightarrow> prov_state \<Rightarrow> CommandResult \<times> prov_state" where
  "exec_in sh call st =
     (let r = sh call
      in (\<lparr>ok = \<not> exec_error r, output_str = trim (stdout r @ stderr r)\<rparr>,
          st\<lparr>executed := executed st @ [call]\<rparr>))"

text \<open>\<^verbatim>\<open>run\<close> of provision.ts (its default timeout is 90 000 ms).\<close>

definition run :: "shell \<Rightarrow> string \<Rightarrow> string list \<Rightarrow> string \<Rightarrow> int \<Rightarrow> prov_state \<Rightarrow> CommandResult \<times> prov_state" where
  "run sh command args dir t st =
     exec_in sh \<lparr>commandLine = command_line command args, cwd = dir, timeoutMs = t\<rparr> st"

section \<open>Rollback Manager\<close>

definition check_mark :: string where
  "check_mark = [CHR 0xE2, CHR 0x9C, CHR 0x85]"

definition warning_sign :: string where
  "warning_sign = [CHR 0xE2, CHR 0x9A, CHR 0xA0, CHR 0xEF, CHR 0xB8, CHR 0x8F]"

text \<open>
  \<^verbatim>\<open>runRollback\<close>: while the stack is not empty, pop its last entry; skip an empty command;
  execute any other with a 90 s timeout and log the outcome, and the command's output when
  there is some (\<open>rollback_one\<close> is the loop body after the pop).
\<close>

definition rollback_one :: "shell \<Rightarrow> string \<Rightarrow> string \<Rightarrow> prov_state \<Rightarrow> prov_state" where
  "rollback_one sh dir command st1 =
     (let (result, st2) = exec_in sh \<lparr>commandLine = command, cwd = dir, timeoutMs = 90000\<rparr> st1;
          st3 = push_output (''rollback '' @ (if ok result then check_mark else warning_sign)
                               @ '': '' @ command) st2
      in if output_str result \<noteq> [] then push_output (output_str result) st3 else st3)"

function runRollback :: "shell \<Rightarrow> string \<Rightarrow> prov_state \<Rightarrow> prov_state" where
  "runRollback sh dir st =
     (if rollbackStack st = [] then st
      else
        (let command = last (rollbackStack st);
             st1 = st\<lparr>rollbackStack := butlast (rollbackStack st)\<rparr>
         in if command = [] then runRollback sh dir st1
            else runRollback sh dir (rollback_one sh dir command st1)))"
  by pat_completeness auto
termination
  by (relation "measure (\<lambda>(sh, dir, st). length (rollbackStack st))")
     (auto simp: rollback_one_def exec_in_def push_output_def Let_def)

text \<open>The defining equation unfolds without end under the simplifier; it is applied by hand.\<close>

declare runRollback.simps [simp del]

section \<open>Resource Provisioner\<close>

text \<open>A thrown \<^verbatim>\<open>Error\<close> is \<open>Inl\<close> of its message; the arrays keep what was pushed before.\<close>

definition ensureGitRepository :: "shell \<Rightarrow> string \<Rightarrow> prov_state \<Rightarrow> (string + unit) \<times> prov_state" where
  "ensureGitRepository sh projectRoot st0 =
     (let (check, st1) = run sh ''git'' [''rev-parse'', ''--is-inside-work-tree''] projectRoot 90000 st0
      in if ok check then (Inr (), st1)
         else
           (let (init, st2) = run sh ''git'' [''init''] projectRoot 90000 st1
            in if \<not> ok init then (Inl (''Git initialization failed: '' @ output_str init), st2)
               else
                 (let (setMain, st3) = run sh ''git'' [''branch'', ''-M'', ''main''] projectRoot 90000 st2;
                      st4 = (if \<not> ok setMain
                             then push_output (''warning: could not set default branch to main: ''
                                               @ output_str setMain) st3
                             else st3)
                  in (Inr (), push_output ''git repository initialized for scaffolded project'' st4))))"

definition ensureInitialCommit :: "shell \<Rightarrow> string \<Rightarrow> prov_state \<Rightarrow> bool \<times> prov_state" where
  "ensureInitialCommit sh projectRoot st0 =
     (let (hasHead, st1) = run sh ''git'' [''rev-parse'', ''--verify'', ''HEAD''] projectRoot 90000 st0
      in if ok hasHead then (True, st1)
         else
           (let (addAll, st2) = run sh ''git'' [''add'', ''.''] projectRoot 90000 st1
            in if \<not> ok addAll
               then (False, push_output (''warning: could not stage files for initial commit: ''
                                         @ output_str addAll) st2)
               else
                 (let (addBackend, st3) =
                        run sh ''git'' [''add'', ''-f'', ''supabase/functions/'', ''supabase/config.toml'',
                                       ''vercel.json'', ''frontend/src/'', ''frontend/package.json'']
                          projectRoot 90000 st2;
                      st4 = (if \<not> ok addBackend
                             then push_output (''warning: could not force-add source files: ''
                                               @ output_str addBackend) st3
                             else st3);
                      (commit, st5) = run sh ''git'' [''commit'', ''-m'', ''Initial scaffold''] projectRoot 90000 st4
                  in if \<not> ok commit
                     then (False, push_output (''warning: initial commit skipped: '' @ output_str commit) st5)
                     else (True, push_output ''initial git commit created'' st5))))"

text \<open>\<^verbatim>\<open>output.split(/\r?\n/).map((line) => line.trim()).find(Boolean) ?? ""\<close>.\<close>

definition first_nonempty_line :: "string \<Rightarrow> string" where
  "first_nonempty_line s = (case List.find (\<lambda>l. l \<noteq> []) (map trim (split_lines s)) of Some l \<Rightarrow> l | None \<Rightarrow> [])"

definition ensureGitHubRepo :: "shell \<Rightarrow> string \<Rightarrow> string \<Rightarrow> prov_state \<Rightarrow> (string + string) \<times> prov_state" where
  "ensureGitHubRepo sh projectName projectRoot st0 =
     (case ensureGitRepository sh projectRoot st0 of
        (Inl e, st1) \<Rightarrow> (Inl e, st1)
      | (Inr u, st1) \<Rightarrow>
          (let (ownerResult, st2) = run sh ''gh'' [''api'', ''user'', ''--jq'', ''.login''] projectRoot 90000 st1
           in if \<not> ok ownerResult \<or> output_str ownerResult = []
              then (Inl (''Unable to resolve GitHub login: ''
                         @ (if output_str ownerResult \<noteq> [] then output_str ownerResult else ''unknown error'')), st2)
              else
                (let owner = first_nonempty_line (output_str ownerResult)
                 in if owner = [] then (Inl ''Unable to resolve GitHub login.'', st2)
                    else
                      (let fullRepo = owner @ ''/'' @ projectName;
                           (repoExists, st3) = run sh ''gh'' [''repo'', ''view'', fullRepo, ''--json'', ''name'']
                                                 projectRoot 90000 st2
                       in if ok repoExists then (Inr fullRepo, push_output (''github repo exists: '' @ fullRepo) st3)
                          else
                            (let (createRepo, st4) =
                                   run sh ''gh'' [''repo'', ''create'', projectName, ''--private'', ''--source'', ''.'',
                                                 ''--remote'', ''origin''] projectRoot 180000 st3
                             in if \<not> ok createRepo
                                then (Inl (''GitHub repo creation failed: '' @ output_str createRepo), st4)
                                else
                                  (let st5 = push_output (''github repo created: '' @ fullRepo) st4;
                                       st6 = push_rollback (''gh repo delete '' @ fullRepo @ '' --yes'') st5;
                                       (canPush, st7) = ensureInitialCommit sh projectRoot st6
                                   in if canPush
                                      then
                                        (let (push, st8) = run sh ''git'' [''push'', ''-u'', ''origin'', ''HEAD'']
                                                             projectRoot 180000 st7
                                         in if \<not> ok push
                                            then (Inr fullRepo,
                                                  push_output (''warning: git push failed: '' @ output_str push) st8)
                                            else (Inr fullRepo, push_output ''git remote push completed'' st8))
                                      else (Inr fullRepo, st7)))))))"

definition ensureVercelProject :: "shell \<Rightarrow> string \<Rightarrow> string \<Rightarrow> prov_state \<Rightarrow> (string + string) \<times> prov_state" where
  "ensureVercelProject sh projectName projectRoot st0 =
     (let (inspect, st1) = run sh ''vercel'' [''project'', ''inspect'', projectName] projectRoot 90000 st0;
          (thrown, created, st2) =
            (if \<not> ok inspect
             then
               (let (add, st1a) = run sh ''vercel'' [''project'', ''add'', projectName] projectRoot 180000 st1
                in if \<not> ok add \<and> \<not> includes_ci (output_str add) ''already exists''
                   then (Some (''Vercel project creation failed: '' @ output_str add), False, st1a)
                   else
                     (let created = (\<not> includes_ci (output_str add) ''already exists'')
                      in (None, created,
                          push_output (if created then ''vercel project created: '' @ projectName
                                       else ''vercel project exists: '' @ projectName) st1a)))
             else (None, False, push_output (''vercel project exists: '' @ projectName) st1))
      in case thrown of
           Some e \<Rightarrow> (Inl e, st2)
         | None \<Rightarrow>
             (let (link, st3) = run sh ''vercel'' [''link'', ''--yes'', ''--project'', projectName]
                                  projectRoot 180000 st2
              in if \<not> ok link \<and> \<not> (includes_ci (output_str link) ''already linked''
                                      \<or> includes_ci (output_str link) ''linked to'')
                 then (Inl (''Vercel link failed: '' @ output_str link), st3)
                 else
                   (let st4 = push_output (''vercel project linked to '' @ projectRoot) st3;
                        st5 = (if created then push_rollback (''vercel project rm '' @ projectName @ '' --yes'') st4
                               else st4)
                    in (Inr projectName, st5))))"

record ProvisionResult =
  provision_ok :: bool
  githubRepo :: "string option"
  vercelProjectId :: "string option"
  result_rollbackStack :: "string list"
  result_output :: "string list"

definition prov_start :: prov_state where
  "prov_start = \<lparr>output_lines = [], rollbackStack = [], executed = []\<rparr>"

definition provision_failure :: "shell \<Rightarrow> string \<Rightarrow> string \<Rightarrow> prov_state \<Rightarrow> ProvisionResult \<times> exec_call list" where
  "provision_failure sh projectRoot message st =
     (let st' = runRollback sh projectRoot (push_output message st)
      in (\<lparr>provision_ok = False, githubRepo = None, vercelProjectId = None,
           result_rollbackStack = rollbackStack st', result_output = output_lines st'\<rparr>, executed st'))"

text \<open>\<^verbatim>\<open>runProvisioning\<close>; the result is paired with the calls handed to the shell, in order.\<close>

definition runProvisioning :: "shell \<Rightarrow> string \<Rightarrow> string \<Rightarrow> ProvisionResult \<times> exec_call list" where
  "runProvisioning sh projectRoot projectName =
     (case ensureGitHubRepo sh projectName projectRoot prov_start of
        (Inl message, st1) \<Rightarrow> provision_failure sh projectRoot message st1
      | (Inr repo, st1) \<Rightarrow>
          (case ensureVercelProject sh projectName projectRoot st1 of
             (Inl message, st2) \<Rightarrow> provision_failure sh projectRoot message st2
           | (Inr projectId, st2) \<Rightarrow>
               (\<lparr>provision_ok = True, githubRepo = Some repo, vercelProjectId = Some projectId,
                 result_rollbackStack = rollbackStack st2, result_output = output_lines st2\<rparr>,
                executed st2)))"

text \<open>A shell given by a table from command lines to results, with a result for all others.\<close>

definition scripted_shell :: "(string \<times> exec_result) list \<Rightarrow> exec_result \<Rightarrow> shell" where
  "scripted_shell table other call =
     (case map_of table (commandLine call) of Some r \<Rightarrow> r | None \<Rightarrow> other)"

definition succeeds :: "string \<Rightarrow> exec_result" where
  "succeeds text = \<lparr>exec_error = False, stdout = text, stderr = []\<rparr>"

definition fails :: "string \<Rightarrow> exec_result" where
  "fails text = \<lparr>exec_error = True, stdout = [], stderr = text\<rparr>"

text \<open>What a call of \<^verbatim>\<open>run\<close> resolves with (it does not depend on the arrays).\<close>

definition run_result :: "shell \<Rightarrow> string \<Rightarrow> string list \<Rightarrow> string \<Rightarrow> int \<Rightarrow> CommandResult" where
  "run_result sh command args dir t = fst (run sh command args dir t prov_start)"

text \<open>
  A shell in front of resources that already exist, for a project \<open>name\<close> in directory
  \<open>root\<close> and the GitHub login \<open>owner\<close>: the directory is a git work tree or \<^verbatim>\<open>git init\<close>
  succeeds; the identity lookup answers \<open>owner\<close>; the repository \<open>owner/name\<close> is found;
  the hosting project is found by the inspection, or else its creation answers
  "already exists"; and linking succeeds or answers that the directory is linked.
\<close>

definition git_ready :: "shell \<Rightarrow> string \<Rightarrow> bool" where
  "git_ready sh root =
     (ok (run_result sh ''git'' [''rev-parse'', ''--is-inside-work-tree''] root 90000)
      \<or> ok (run_result sh ''git'' [''init''] root 90000))"

definition login_is :: "shell \<Rightarrow> string \<Rightarrow> string \<Rightarrow> bool" where
  "login_is sh root owner =
     (ok (run_result sh ''gh'' [''api'', ''user'', ''--jq'', ''.login''] root 90000)
      \<and> owner \<noteq> []
      \<and> first_nonempty_line (output_str (run_result sh ''gh'' [''api'', ''user'', ''--jq'', ''.login''] root 90000)) = owner)"

definition repo_exists :: "shell \<Rightarrow> string \<Rightarrow> string \<Rightarrow> string \<Rightarrow> bool" where
  "repo_exists sh root owner name =
     ok (run_result sh ''gh'' [''repo'', ''view'', owner @ ''/'' @ name, ''--json'', ''name''] root 90000)"

definition project_exists :: "shell \<Rightarrow> string \<Rightarrow> string \<Rightarrow> bool" where
  "project_exists sh root name =
     (ok (run_result sh ''vercel'' [''project'', ''inspect'', name] root 90000)
      \<or> includes_ci (output_str (run_result sh ''vercel'' [''project'', ''add'', name] root 180000))
           ''already exists'')"

definition link_accepted :: "shell \<Rightarrow> string \<Rightarrow> string \<Rightarrow> bool" where
  "link_accepted sh root name =
     (let link = run_result sh ''vercel'' [''link'', ''--yes'', ''--project'', name] root 180000
      in ok link \<or> includes_ci (output_str link) ''already linked''
         \<or> includes_ci (output_str link) ''linked to'')"

text \<open>Shells for the concrete runs. In each the identity lookup prints \<^verbatim>\<open>octo\<close> and
  every command not listed succeeds silently.\<close>

definition existing_shell :: shell where
  "existing_shell = scripted_shell
     [(''gh api user --jq .login'', succeeds (''octo'' @ [newline]))]
     (succeeds [])"

definition link_broken_shell :: shell where
  "link_broken_shell = scripted_shell
     [(''gh api user --jq .login'', succeeds (''octo'' @ [newline])),
      (''vercel link --yes --project demo'', fails ''Error: request timed out'')]
     (succeeds [])"

definition fresh_project_shell :: shell where
  "fresh_project_shell = scripted_shell
     [(''gh api user --jq .login'', succeeds (''octo'' @ [newline])),
      (''vercel project inspect demo'', fails ''Error: project not found''),
      (''vercel project add demo'', succeeds ''Success! Project demo added''),
      (''vercel link --yes --project demo'', fails ''Error: request timed out'')]
     (succeeds [])"

definition fresh_repo_shell :: shell where
  "fresh_repo_shell = scripted_shell
     [(''gh api user --jq .login'', succeeds (''octo'' @ [newline])),
      (''gh repo view octo/demo --json name'', fails ''GraphQL: Could not resolve to a Repository''),
      (''vercel project inspect demo'', fails ''Error: project not found''),
      (''vercel project add demo'', fails ''Error: request timed out''),
      (''gh repo delete octo/demo --yes'', fails ''HTTP 403'')]
     (succeeds [])"

definition call_in :: "string \<Rightarrow> string \<Rightarrow> exec_call" where
  "call_in dir command = \<lparr>commandLine = command, cwd = dir, timeoutMs = 90000\<rparr>"

section \<open>Deployment Log Analyzer\<close>

datatype error_type = Build | Env | Config_error | Network | Unknown

record DeploymentError =
  error_line :: string
  error_type :: error_type
  suggestion :: string

definition first_stage_keywords :: "string list" where
  "first_stage_keywords = [''error'', ''failed'', ''cannot find'', ''not found'', ''enoent'']"

definition failure_keywords :: "string list" where
  "failure_keywords = first_stage_keywords @ [''missing'', ''undefined'', ''null'']"

text \<open>The classification of one selected line: the first group with a keyword in the
  lower-cased line wins.\<close>

definition classify :: "string \<Rightarrow> DeploymentError" where
  "classify l =
     (let low = toLowerCase l
      in if includes_any low [''env'', ''environment'', ''secret'', ''api_key'', ''api-key'']
         then \<lparr>error_line = l, error_type = Env,
               suggestion = ''Check that all required environment variables are set in Vercel project settings.''\<rparr>
         else if includes_any low [''build'', ''compile'', ''syntax'', ''npm'', ''python'', ''module'', ''package'']
         then \<lparr>error_line = l, error_type = Build,
               suggestion = ''Run `npm run build` or `pip install` locally to debug build issues.''\<rparr>
         else if includes_any low [''config'', ''vercel.json'', ''next.config'']
         then \<lparr>error_line = l, error_type = Config_error,
               suggestion = ''Check your project configuration files (vercel.json, package.json, etc.).''\<rparr>
         else if includes_any low [''timeout'', ''econnrefused'', ''network'', ''dns'', ''connection'']
         then \<lparr>error_line = l, error_type = Network,
               suggestion = ''Check network connectivity and firewall rules for external API calls.''\<rparr>
         else \<lparr>error_line = l, error_type = Unknown,
               suggestion = ''Review the logs above and fix the issue, then redeploy.''\<rparr>)"

definition parseDeploymentLog :: "string list \<Rightarrow> DeploymentError list" where
  "parseDeploymentLog logs =
     (if includes_any (toLowerCase (join_lines logs)) first_stage_keywords
      then map classify (take 5 (filter (\<lambda>l. includes_any (toLowerCase l) failure_keywords) logs))
      else [])"

text \<open>
  \<^verbatim>\<open>text.match(pattern)\<close> without the \<^verbatim>\<open>g\<close> flag finds the leftmost position at which the
  pattern matches. \<open>leftmost at s\<close> tries \<open>at\<close> on \<open>s\<close> and then on each of its proper
  suffixes in turn.
\<close>

fun leftmost :: "(string \<Rightarrow> 'a option) \<Rightarrow> string \<Rightarrow> 'a option" where
  "leftmost at [] = at []"
| "leftmost at (c # cs) = (case at (c # cs) of Some m \<Rightarrow> Some m | None \<Rightarrow> leftmost at cs)"

text \<open>\<^verbatim>\<open>https?:\/\/\<close> under the \<^verbatim>\<open>i\<close> flag, at the head of \<open>s\<close>: the length of the scheme matched.\<close>

definition scheme_length :: "string \<Rightarrow> nat option" where
  "scheme_length s =
     (if startsWith_ci s ''https://'' then Some 8
      else if startsWith_ci s ''http://'' then Some 7 else None)"

text \<open>
  \<^verbatim>\<open>([a-z0-9-]+\.vercel\.app)\<close> under the \<^verbatim>\<open>i\<close> flag, at the head of \<open>s\<close>. The dot is
  outside the class, so the label is the longest run of class characters.
\<close>

definition host_char :: "char \<Rightarrow> bool" where
  "host_char c = (c \<in> set (lower_letters @ upper_letters @ digit_chars @ ''-''))"

definition match_host :: "string \<Rightarrow> string \<Rightarrow> string option" where
  "match_host suffix s =
     (let label = takeWhile host_char s; rest = dropWhile host_char s
      in if label \<noteq> [] \<and> startsWith_ci rest suffix then Some (label @ take (length suffix) rest)
         else None)"

text \<open>\<^verbatim>\<open>(?:https?:\/\/)?([a-z0-9-]+\.vercel\.app)\<close> at the head of \<open>s\<close>: with the scheme
  first, and without it when that fails. The value is group 1.\<close>

definition match_host_url :: "string \<Rightarrow> string \<Rightarrow> string option" where
  "match_host_url suffix s =
     (case scheme_length s of
        Some n \<Rightarrow> (case match_host suffix (drop n s) of Some m \<Rightarrow> Some m | None \<Rightarrow> match_host suffix s)
      | None \<Rightarrow> match_host suffix s)"

text \<open>\<^verbatim>\<open>(https?:\/\/[^\s]+)\<close> at the head of \<open>s\<close>.\<close>

definition match_http_url :: "string \<Rightarrow> string option" where
  "match_http_url s =
     (case scheme_length s of
        None \<Rightarrow> None
      | Some n \<Rightarrow> (let rest = takeWhile (\<lambda>c. \<not> is_space c) (drop n s)
                   in if rest \<noteq> [] then Some (take n s @ rest) else None))"

text \<open>\<^verbatim>\<open>url:?\s+(https?:\/\/[^\s]+)\<close> and \<^verbatim>\<open>(?:production\s+)?url:?\s+(...)\<close> at the head of
  \<open>s\<close>, under the \<^verbatim>\<open>i\<close> flag.\<close>

definition match_url_label :: "string \<Rightarrow> string option" where
  "match_url_label s =
     (if startsWith_ci s ''url''
      then (let r = drop 3 s; r' = (if startsWith r '':'' then drop 1 r else r)
            in if takeWhile is_space r' \<noteq> [] then match_http_url (dropWhile is_space r') else None)
      else None)"

definition match_production_url :: "string \<Rightarrow> string option" where
  "match_production_url s =
     (let with_prefix =
            (if startsWith_ci s ''production'' \<and> takeWhile is_space (drop 10 s) \<noteq> []
             then match_url_label (dropWhile is_space (drop 10 s)) else None)
      in case with_prefix of Some m \<Rightarrow> Some m | None \<Rightarrow> match_url_label s)"

definition hosting_text :: "string \<Rightarrow> bool" where
  "hosting_text candidate = (str_includes candidate ''vercel.app'' \<or> str_includes candidate ''web.app'')"

text \<open>One round of the loop of \<^verbatim>\<open>extractDeploymentUrl\<close>: the candidate of a match, when it
  passes the test \<^verbatim>\<open>/vercel\.app|web\.app/\<close>.\<close>

definition accepted_candidate :: "string option \<Rightarrow> string option" where
  "accepted_candidate m =
     (case m of
        None \<Rightarrow> None
      | Some g \<Rightarrow>
          if g = [] then None
          else (let candidate = (if startsWith g ''http'' then g else ''https://'' @ g)
                in if hosting_text candidate then Some candidate else None))"

definition extractDeploymentUrl :: "string list \<Rightarrow> string option" where
  "extractDeploymentUrl logs =
     (let text = join_lines logs
      in case accepted_candidate (leftmost (match_host_url ''.vercel.app'') text) of
           Some u \<Rightarrow> Some u
         | None \<Rightarrow>
             (case accepted_candidate (leftmost (match_host_url ''.web.app'') text) of
                Some u \<Rightarrow> Some u
              | None \<Rightarrow> accepted_candidate (leftmost match_production_url text)))"

text \<open>\<^verbatim>\<open>Aliased:\s*(https?:\/\/[^\s]+)\<close> under the \<^verbatim>\<open>i\<close> flag, at the head of \<open>s\<close>.\<close>

definition match_aliased :: "string \<Rightarrow> string option" where
  "match_aliased s =
     (if startsWith_ci s ''aliased:'' then match_http_url (dropWhile is_space (drop 8 s)) else None)"

text \<open>
  \<^verbatim>\<open>/(?:^|\n)\s*https?:\/\/[^\s]*\.vercel\.app\s*$/im\<close>, trimmed. A match starts at the
  beginning of a line or on a line feed, skips white space, and reads a URL that runs up to
  the next white space, ends in \<^verbatim>\<open>.vercel.app\<close> and is followed by white space only up to
  the end of its line. \<open>at_line_start\<close> tells whether \<open>s\<close> begins the text or follows a line
  terminator.
\<close>

definition line_terminator :: "char \<Rightarrow> bool" where
  "line_terminator c = (c = newline \<or> c = carriage_return)"

definition ends_with_ci :: "string \<Rightarrow> string \<Rightarrow> bool" where
  "ends_with_ci s suffix =
     (length suffix \<le> length s \<and> toLowerCase (drop (length s - length suffix) s) = toLowerCase suffix)"

definition match_ready :: "bool \<Rightarrow> string \<Rightarrow> string option" where
  "match_ready at_line_start s =
     (if at_line_start \<or> startsWith s [newline]
      then (let r = dropWhile is_space s
            in case scheme_length r of
                 None \<Rightarrow> None
               | Some n \<Rightarrow>
                   (let rest = takeWhile (\<lambda>c. \<not> is_space c) (drop n r);
                        after = dropWhile (\<lambda>c. is_space c \<and> \<not> line_terminator c)
                                  (dropWhile (\<lambda>c. \<not> is_space c) (drop n r))
                    in if ends_with_ci rest ''.vercel.app''
                          \<and> (case after of [] \<Rightarrow> True | a # as \<Rightarrow> line_terminator a)
                       then Some (take n r @ rest) else None))
      else None)"

fun search_ready :: "bool \<Rightarrow> string \<Rightarrow> string option" where
  "search_ready at_line_start [] = match_ready at_line_start []"
| "search_ready at_line_start (c # cs) =
     (case match_ready at_line_start (c # cs) of
        Some m \<Rightarrow> Some m
      | None \<Rightarrow> search_ready (line_terminator c) cs)"

definition extractVercelPublicUrl :: "string list \<Rightarrow> string option" where
  "extractVercelPublicUrl logs =
     (let text = join_lines logs
      in case leftmost match_aliased text of
           Some u \<Rightarrow> Some u
         | None \<Rightarrow> search_ready True text)"

record DeploymentResult =
  deploy_ok :: bool
  frontendUrl :: "string option"
  publicUrl :: "string option"
  backendUrl :: "string option"
  logs :: "string list"
  errors :: "DeploymentError list"

text \<open>\<^verbatim>\<open>if (vercelToken)\<close>: a string that is present and not empty.\<close>

definition truthy :: "string option \<Rightarrow> bool" where
  "truthy v = (case v of None \<Rightarrow> False | Some s \<Rightarrow> s \<noteq> [])"

definition frontend_command :: "string option \<Rightarrow> string" where
  "frontend_command vercelToken =
     ''vercel '' @ join_spaces ([''deploy'', ''--prod'', ''--yes'']
        @ (if truthy vercelToken then [''--token='' @ quoteArg (the vercelToken)] else []))"

definition backend_command :: "string option \<Rightarrow> string" where
  "backend_command supabaseProjectRef =
     ''npx supabase functions deploy api''
     @ (if truthy supabaseProjectRef then '' --project-ref '' @ the supabaseProjectRef else [])"

text \<open>
  \<^verbatim>\<open>runDeployment\<close>, on the results of the two deploy processes (the log file, its path and
  the \<^verbatim>\<open>onCommand\<close> callback are left out). The frontend process runs in the directory
  \<^verbatim>\<open>frontend\<close> of the project root, the backend one in the root with the access token in its
  environment, both with a 600 s timeout.
\<close>

definition frontend_call :: "string \<Rightarrow> string option \<Rightarrow> exec_call" where
  "frontend_call projectRoot vercelToken =
     \<lparr>commandLine = frontend_command vercelToken, cwd = projectRoot @ ''/frontend'', timeoutMs = 600000\<rparr>"

definition backend_call :: "string \<Rightarrow> string option \<Rightarrow> exec_call" where
  "backend_call projectRoot supabaseProjectRef =
     \<lparr>commandLine = backend_command supabaseProjectRef, cwd = projectRoot, timeoutMs = 600000\<rparr>"

text \<open>\<^verbatim>\<open>`${stdout ?? ""}${stderr ?? ""}`.split(/\r?\n/).filter(Boolean)\<close>.\<close>

definition output_lines_of :: "exec_result \<Rightarrow> string list" where
  "output_lines_of res = nonempty_lines (stdout res @ stderr res)"

definition runDeployment :: "shell \<Rightarrow> string \<Rightarrow> string option \<Rightarrow> string option \<Rightarrow> DeploymentResult" where
  "runDeployment sh projectRoot vercelToken supabaseProjectRef =
     (let front = sh (frontend_call projectRoot vercelToken);
          lines = output_lines_of front;
          url = extractDeploymentUrl lines;
          front_ok = (\<not> exec_error front \<and> truthy url);
          front_public = (if exec_error front then extractVercelPublicUrl lines
                          else (case extractVercelPublicUrl lines of Some a \<Rightarrow> Some a | None \<Rightarrow> url));
          front_errors = (if exec_error front then parseDeploymentLog lines else []);
          back = sh (backend_call projectRoot supabaseProjectRef);
          back_lines = output_lines_of back;
          back_errors = (if exec_error back then parseDeploymentLog back_lines else [])
      in \<lparr>deploy_ok = (front_ok \<and> \<not> exec_error back),
          frontendUrl = url,
          publicUrl = front_public,
          backendUrl = None,
          logs = [''=== Deploying frontend to Vercel ==='' @ [newline],
                  ''$ '' @ frontend_command vercelToken, []] @ lines
                 @ [newline # ''=== Deploying backend to Supabase Edge Functions ==='' @ [newline],
                    ''$ '' @ backend_command supabaseProjectRef, []] @ back_lines,
          errors = front_errors @ back_errors\<rparr>)"

text \<open>
  The words of claim C10: a URL is on a hosting domain when its host, the text between the
  scheme and the next \<^verbatim>\<open>/\<close>, \<^verbatim>\<open>?\<close>, \<^verbatim>\<open>#\<close> or \<^verbatim>\<open>:\<close>, is the domain or ends with a dot
  and the domain.
\<close>

definition url_host :: "string \<Rightarrow> string" where
  "url_host u = takeWhile (\<lambda>c. c \<notin> set ''/?#:'') (drop (case scheme_length u of Some n \<Rightarrow> n | None \<Rightarrow> 0) u)"

definition on_domain :: "string \<Rightarrow> string \<Rightarrow> bool" where
  "on_domain u d = (toLowerCase (url_host u) = d \<or> ends_with_ci (url_host u) (''.'' @ d))"

definition on_hosting_domain :: "string \<Rightarrow> bool" where
  "on_hosting_domain u = (on_domain u ''vercel.app'' \<or> on_domain u ''web.app'')"

text \<open>A shell whose frontend deploy prints the given text and exits zero, as does the backend
  deploy.\<close>

definition deploy_shell :: "string \<Rightarrow> shell" where
  "deploy_shell text = scripted_shell [(''vercel deploy --prod --yes'', succeeds text)] (succeeds [])"

definition failing_deploy_shell :: "string \<Rightarrow> shell" where
  "failing_deploy_shell text = scripted_shell [(''vercel deploy --prod --yes'', fails text)] (succeeds [])"

section \<open>Phase Orchestrator\<close>

text \<open>
  Everything the orchestrator asks of its collaborators during one phase handler is a field
  of a \<open>world\<close>: the tool checks before and after the installation attempts, the two CLI
  identity checks, the URL parser and the network behind the project endpoint
  verification, the operator's answers to the four input boxes (\<open>None\<close> when dismissed),
  the scaffolder's root directory and whether one of its installs failed, and the shell
  behind provisioning and deployment.
\<close>

record world =
  tools_ok :: bool
  tools_ok_after_install :: bool
  gh_ok :: bool
  vercel_ok :: bool
  url_parser :: "string \<Rightarrow> URL option"
  network :: "request \<Rightarrow> http_outcome"
  answer_access_token :: "string option"
  answer_project_url :: "string option"
  answer_publishable_key :: "string option"
  answer_vercel_token :: "string option"
  scaffold_root :: string
  install_failed :: bool
  shell_of :: shell

text \<open>The effects on collaborators that the claims speak of.\<close>

datatype effect =
  DeleteSecret string
  | WireEnvironment string string string string string

text \<open>
  The state file during a run (it exists from \<^verbatim>\<open>ensureInitialized\<close> on), every state written
  to it, in order, and the effects so far.
\<close>

record run =
  state_file :: ManifoldState
  written :: "ManifoldState list"
  effects :: "effect list"

definition do_patch :: "ManifoldStatePatch \<Rightarrow> run \<Rightarrow> run" where
  "do_patch p r = r\<lparr>state_file := patch_next (state_file r) p, written := written r @ [patch_next (state_file r) p]\<rparr>"

definition do_effects :: "effect list \<Rightarrow> run \<Rightarrow> run" where
  "do_effects es r = r\<lparr>effects := effects r @ es\<rparr>"

text \<open>The patch \<^verbatim>\<open>{ current_phase, status }\<close>.\<close>

definition phase_patch :: "string \<Rightarrow> RunStatus \<Rightarrow> ManifoldStatePatch" where
  "phase_patch phase st = no_patch\<lparr>patch_current_phase := Some phase, patch_status := Some st\<rparr>"

text \<open>The private methods of \<^verbatim>\<open>Manifold\<close>, each ending in a call of the next or in a return.\<close>

datatype handler =
  Bootstrap
  | AuthHandshake
  | LocalScaffolding
  | ProvisioningPhase string string
  | EnvWiringPhase string
  | DeploymentPhase string










text \<open>The values phase 4 requires, and the patch it writes when one of them is missing.\<close>

definition missing_values :: "ManifoldState \<Rightarrow> string list" where
  "missing_values s =
     (if \<not> truthy (github_repo (resources s)) then [''GitHub repo''] else [])
     @ (if \<not> truthy (vercel_project_id (resources s)) then [''Vercel project ID''] else [])
     @ (if \<not> truthy (supabase_url (credentials s)) then [''Supabase URL''] else [])
     @ (if \<not> truthy (supabase_publishable_key (credentials s)) then [''Supabase publishable key''] else [])"

definition reset_patch :: ManifoldStatePatch where
  "reset_patch = (phase_patch ''1_auth'' In_progress)
     \<lparr>patch_resources := Some [Github_repo \<mapsto> None, Vercel_project_id \<mapsto> None, Supabase_ref \<mapsto> None],
      patch_credentials := Some [Vercel_token \<mapsto> None, Supabase_access_token \<mapsto> None,
                                Supabase_url \<mapsto> None, Supabase_publishable_key \<mapsto> None]\<rparr>"

definition runEnvWiringPhase :: "world \<Rightarrow> string \<Rightarrow> run \<Rightarrow> run \<times> handler option" where
  "runEnvWiringPhase w projectRoot r =
     (let s = state_file r
      in if missing_values s \<noteq> []
         then (do_patch reset_patch
                 (do_effects [DeleteSecret ''manifold.supabase.pat'',
                              DeleteSecret ''manifold.supabase.projectUrl'',
                              DeleteSecret ''manifold.supabase.publishableKey'',
                              DeleteSecret ''manifold.supabase.accessToken''] r),
               Some AuthHandshake)
         else (do_patch (phase_patch ''5_deploy'' In_progress)
                 (do_effects [WireEnvironment projectRoot
                                (the (supabase_url (credentials s)))
                                (the (supabase_publishable_key (credentials s)))
                                (the (github_repo (resources s)))
                                (the (vercel_project_id (resources s)))] r),
               Some (DeploymentPhase projectRoot)))"

definition runDeploymentPhase :: "world \<Rightarrow> string \<Rightarrow> run \<Rightarrow> run \<times> handler option" where
  "runDeploymentPhase w projectRoot r =
     (let s = state_file r;
          deployResult = runDeployment (shell_of w) projectRoot (vercel_token (credentials s))
                           (supabase_ref (resources s))
      in if deploy_ok deployResult
         then (do_patch (phase_patch ''5_deploy'' Complete) r, None)
         else (do_patch (phase_patch ''5_deploy'' Paused_at_auth) r, None))"





text \<open>A required value is absent when it is \<^verbatim>\<open>null\<close> or the empty string (the test of the
  source is \<^verbatim>\<open>!value\<close>).\<close>

definition absent :: "string option \<Rightarrow> bool" where
  "absent v = (case v of None \<Rightarrow> True | Some s \<Rightarrow> s = [])"




section \<open>Scenarios of the orchestrator and the log analyzer\<close>

text \<open>
  A world for the concrete runs: all tools and logins in place, the operator enters an
  access token, the project URL and a publishable key and skips the hosting token, the
  project endpoint answers 200, the repository \<^verbatim>\<open>octo/demo\<close> does not exist yet and is
  created, the hosting project exists, and the frontend deploy prints its URL.
\<close>

definition demo_shell :: shell where
  "demo_shell = scripted_shell
     [(''gh api user --jq .login'', succeeds (''octo'' @ [newline])),
      (''gh repo view octo/demo --json name'', fails ''GraphQL: Could not resolve to a Repository''),
      (''vercel deploy --prod --yes'', succeeds (''Production: https://demo-abc123.vercel.app [2s]'' @ [newline]))]
     (succeeds [])"

definition demo_world :: world where
  "demo_world =
     \<lparr>tools_ok = True, tools_ok_after_install = True, gh_ok = True, vercel_ok = True,
      url_parser = sample_newURL, network = net_always (Response (Some 200) []),
      answer_access_token = Some ''sbp_0123'',
      answer_project_url = Some ''https://abcdefghijklmnopqrst.supabase.co'',
      answer_publishable_key = Some ''sb_publishable_0123'',
      answer_vercel_token = None,
      scaffold_root = ''/w/demo'', install_failed = False, shell_of = demo_shell\<rparr>"



text \<open>A run entering phase 4 without a hosting project id, and one with all four values.\<close>

definition unwired_run :: run where
  "unwired_run =
     \<lparr>state_file = (createDefaultState ''1700000000000'' ''demo'' Flask)
        \<lparr>current_phase := ''4_env_wiring'',
         resources := \<lparr>github_repo = Some ''octo/demo'', vercel_project_id = None,
                       supabase_ref = Some ''abcdefghijklmnopqrst''\<rparr>,
         credentials := \<lparr>vercel_token = Some ''vtok'', supabase_access_token = Some ''sbp_0123'',
                         supabase_url = Some ''https://abcdefghijklmnopqrst.supabase.co'',
                         supabase_publishable_key = Some ''sb_publishable_0123''\<rparr>\<rparr>,
      written = [], effects = []\<rparr>"

definition wired_run :: run where
  "wired_run = unwired_run\<lparr>state_file :=
     (state_file unwired_run)\<lparr>resources := \<lparr>github_repo = Some ''octo/demo'', vercel_project_id = Some ''demo'',
                                             supabase_ref = Some ''abcdefghijklmnopqrst''\<rparr>\<rparr>\<rparr>"

text \<open>The two example inputs of the specification's log-analyzer property, the second inside
  a deploy output that also carries the raw deployment URL.\<close>

definition enoent_line :: string where
  "enoent_line = ''Error: ENOENT: missing module '' @ [CHR 0x27] @ ''foo'' @ [CHR 0x27]"

definition alias_line :: string where
  "alias_line = ''Aliased: https://app-demo.example-host.app''"

definition aliased_output :: string where
  "aliased_output = ''Production: https://app-demo-abc123.vercel.app [2s]'' @ [newline]
     @ alias_line @ [newline]"

text \<open>A run entering phase 5, for a world whose frontend deploy exits zero and prints no URL.\<close>

definition silent_world :: world where
  "silent_world = demo_world\<lparr>shell_of := deploy_shell (''Build completed'' @ [newline])\<rparr>"

definition deploying_run :: run where
  "deploying_run = wired_run\<lparr>state_file :=
     (state_file wired_run)\<lparr>current_phase := ''5_deploy'',
        credentials := \<lparr>vercel_token = None, supabase_access_token = Some ''sbp_0123'',
                        supabase_url = Some ''https://abcdefghijklmnopqrst.supabase.co'',
                        supabase_publishable_key = Some ''sb_publishable_0123''\<rparr>\<rparr>\<rparr>"

section \<open>Properties of the argument quoting\<close>

lemma arg_char_iff: "arg_char c \<longleftrightarrow> spec_arg_char c \<or> c = backslash"
  by (auto simp: arg_char_def spec_arg_char_def)

text \<open>
  Claim C9, as stated, fails on the code: an argument with a backslash has a character
  outside the class \<^verbatim>\<open>[A-Za-z0-9._:/-]\<close> and is passed through unquoted, and the empty
  argument, all of whose characters are in the class, is quoted.
\<close>

theorem quoteArg_backslash_counterexample:
  "\<not> spec_arg_char backslash
   \<and> backslash \<in> set [CHR ''C'', CHR '':'', backslash, CHR ''x'']
   \<and> quoteArg [CHR ''C'', CHR '':'', backslash, CHR ''x''] = [CHR ''C'', CHR '':'', backslash, CHR ''x'']
   \<and> quoteArg [] = [dquote, dquote]"
  by (simp add: quoteArg_def arg_char_def spec_arg_char_def escape_quotes_def backslash_def
      dquote_def lower_letters_def upper_letters_def digit_chars_def)

text \<open>
  Claim C9, amended: an argument that is empty or has a character outside the class
  \<^verbatim>\<open>[A-Za-z0-9._:/-]\<close> extended by the backslash is wrapped in double quotes with every
  inner double quote escaped by a backslash; a non-empty argument made only of characters
  of the extended class is passed through unchanged.
\<close>

theorem quoteArg_amended:
  "(arg = [] \<or> (\<exists>c \<in> set arg. \<not> spec_arg_char c \<and> c \<noteq> backslash)
      \<longrightarrow> quoteArg arg = dquote # escape_quotes arg @ [dquote])
   \<and> (arg \<noteq> [] \<and> (\<forall>c \<in> set arg. spec_arg_char c \<or> c = backslash) \<longrightarrow> quoteArg arg = arg)"
  by (auto simp: quoteArg_def list_all_iff arg_char_iff)

theorem quoteArg_amended_witness:
  "quoteArg ''my app'' = dquote # ''my app'' @ [dquote]
   \<and> quoteArg (''say '' @ [dquote] @ ''hi'' @ [dquote])
       = dquote # ''say '' @ [backslash, dquote] @ ''hi'' @ [backslash, dquote] @ [dquote]
   \<and> quoteArg ''origin/main-1.0:x_y'' = ''origin/main-1.0:x_y''"
  using quoteArg_amended [of "''my app''"]
    quoteArg_amended [of "''say '' @ [dquote] @ ''hi'' @ [dquote]"]
    quoteArg_amended [of "''origin/main-1.0:x_y''"]
  by (simp add: spec_arg_char_def escape_quotes_def backslash_def
      dquote_def lower_letters_def upper_letters_def digit_chars_def)

section \<open>Properties of the project endpoint verification\<close>

text \<open>
  Claim C1, as stated, fails on the code. A project URL that the URL parser rejects fails
  the verification before any probe is sent, so a failure need not come from two 401/403
  answers or from a network error. (Apart from that guard: a request error whose message is
  the empty string is not seen by the truthiness test \<^verbatim>\<open>if (primary.error)\<close>, the probe then
  counts as status 0 and the verification succeeds; and for a URL whose protocol makes
  \<^verbatim>\<open>https.request\<close> throw, the promise never settles.)
\<close>

theorem verify_invalid_url_counterexample:
  "sample_newURL ''not a url'' = None
   \<and> verifySupabaseProjectApi sample_newURL (net_always (Response (Some 200) [])) ''not a url'' ''key''
       = (Some \<lparr>ok = False, output_str = ''Invalid Supabase Project URL.''\<rparr>, [])
   \<and> verified (verifySupabaseProjectApi sample_newURL (net_always (RequestError []))
                 ''https://abcdefghijklmnopqrst.supabase.co'' ''key'')
   \<and> fst (verifySupabaseProjectApi sample_newURL (https_only (net_always (Response (Some 200) [])))
            ''http://abcdefghijklmnopqrst.supabase.co'' ''key'') = None"
  by (simp add: verifySupabaseProjectApi_def sample_newURL_def net_always_def https_only_def
      requestOnce_def probe_request_def truthy_error_def is_2xx_def status_or_0_def verified_def)

text \<open>
  Claim C1, amended: a project URL that does not parse fails at once with no probe. For a
  URL that parses, the first probe carries no authorization header; a 2xx answer, and any
  answer outside 2xx, 401 and 403, yields verified with that single probe; a 401/403 answer
  triggers exactly one second probe, with the bearer authorization header, judged the same
  way, so that with two answered probes the verification fails exactly when the first is
  401/403 and the second is 401/403 too; a request error with a non-empty message on
  either probe yields failure with no further probe; and a probe whose request cannot be
  issued leaves the verification unsettled.
\<close>

theorem verify_cascade:
  "(newURL projectUrl = None \<longrightarrow>
      verifySupabaseProjectApi newURL net projectUrl key
        = (Some \<lparr>ok = False, output_str = ''Invalid Supabase Project URL.''\<rparr>, []))
   \<and> (\<forall>u. newURL projectUrl = Some u \<longrightarrow>
        (let req1 = probe_request u key ''/auth/v1/settings'' False;
             req2 = probe_request u key ''/rest/v1/'' True;
             V = verifySupabaseProjectApi newURL net projectUrl key
         in ''Authorization'' \<notin> fst ` set (req_headers req1)
            \<and> (''Authorization'', ''Bearer '' @ key) \<in> set (req_headers req2)
            \<and> (case net req1 of
                 RequestThrows \<Rightarrow> fst V = None \<and> snd V = [req1]
               | RequestError m \<Rightarrow> m \<noteq> [] \<longrightarrow> rejected V \<and> snd V = [req1]
               | Response sc1 b1 \<Rightarrow>
                   (is_2xx (status_or_0 sc1) \<longrightarrow> verified V \<and> snd V = [req1])
                   \<and> (\<not> is_2xx (status_or_0 sc1) \<and> \<not> is_denied (status_or_0 sc1)
                        \<longrightarrow> verified V \<and> snd V = [req1])
                   \<and> (is_denied (status_or_0 sc1) \<longrightarrow>
                        snd V = [req1, req2]
                        \<and> (case net req2 of
                             RequestThrows \<Rightarrow> fst V = None
                           | RequestError m \<Rightarrow> m \<noteq> [] \<longrightarrow> rejected V
                           | Response sc2 b2 \<Rightarrow>
                               (verified V \<longleftrightarrow> \<not> is_denied (status_or_0 sc2))
                               \<and> (rejected V \<longleftrightarrow> is_denied (status_or_0 sc2)))))))"
  by (auto simp: verifySupabaseProjectApi_def requestOnce_def truthy_error_def Let_def
        probe_request_def is_2xx_def is_denied_def verified_def rejected_def
      split: http_outcome.splits option.splits)

theorem verify_cascade_witness:
  "sample_newURL ''https://abcdefghijklmnopqrst.supabase.co''
     = Some \<lparr>protocol = ''https:'', hostname = ''abcdefghijklmnopqrst.supabase.co''\<rparr>
   \<and> is_denied (status_or_0 (Some 401)) \<and> \<not> is_denied (status_or_0 (Some 500))
   \<and> verified (verifySupabaseProjectApi sample_newURL
                 (net_by_path (Response (Some 401) []) (Response (Some 500) []))
                 ''https://abcdefghijklmnopqrst.supabase.co'' ''key'')
   \<and> length (snd (verifySupabaseProjectApi sample_newURL
               (net_by_path (Response (Some 401) []) (Response (Some 500) []))
               ''https://abcdefghijklmnopqrst.supabase.co'' ''key'')) = 2
   \<and> rejected (verifySupabaseProjectApi sample_newURL
                 (net_by_path (Response (Some 403) []) (Response (Some 401) []))
                 ''https://abcdefghijklmnopqrst.supabase.co'' ''key'')
   \<and> rejected (verifySupabaseProjectApi sample_newURL
                 (net_always (RequestError ''getaddrinfo ENOTFOUND''))
                 ''https://abcdefghijklmnopqrst.supabase.co'' ''key'')"
  using verify_cascade [of sample_newURL "''https://abcdefghijklmnopqrst.supabase.co''"
      "net_by_path (Response (Some 401) []) (Response (Some 500) [])" "''key''"]
    verify_cascade [of sample_newURL "''https://abcdefghijklmnopqrst.supabase.co''"
      "net_by_path (Response (Some 403) []) (Response (Some 401) [])" "''key''"]
    verify_cascade [of sample_newURL "''https://abcdefghijklmnopqrst.supabase.co''"
      "net_always (RequestError ''getaddrinfo ENOTFOUND'')" "''key''"]
  by (simp add: sample_newURL_def net_by_path_def net_always_def probe_request_def
      is_denied_def is_2xx_def status_or_0_def Let_def)

section \<open>Properties of the Run State Store\<close>

lemma credential_of_spread:
  "credential_of (spread_credentials c given) k =
     (case given of None \<Rightarrow> credential_of c k
      | Some cs \<Rightarrow> (case cs k of None \<Rightarrow> credential_of c k | Some v \<Rightarrow> v))"
  by (cases k) (simp_all add: credential_of_def spread_credentials_def spread_def split: option.splits)

lemma resource_of_spread:
  "resource_of (spread_resources r given) k =
     (case given of None \<Rightarrow> resource_of r k
      | Some rs \<Rightarrow> (case rs k of None \<Rightarrow> resource_of r k | Some v \<Rightarrow> v))"
  by (cases k) (simp_all add: resource_of_def spread_resources_def spread_def split: option.splits)

lemma patch_twice_credentials:
  "a \<noteq> b \<Longrightarrow>
   patch_next (patch_next st (credentials_patch [a \<mapsto> va])) (credentials_patch [b \<mapsto> vb])
     = patch_next st (credentials_patch [a \<mapsto> va, b \<mapsto> vb])"
  by (cases a; cases b)
     (simp_all add: patch_next_def credentials_patch_def no_patch_def spread_def
        spread_credentials_def spread_resources_def spread_config_def spread_stack_def)

lemma patch_stored: "patch (Some st) p = Inr (Some (patch_next st p), patch_next st p)"
  by (simp add: patch_def read_state_def Let_def)

text \<open>
  Claim C5: on a stored state, \<^verbatim>\<open>patch\<close> writes and returns the state in which every key
  of \<^verbatim>\<open>credentials\<close>, \<^verbatim>\<open>resources\<close> and \<^verbatim>\<open>config\<close> (with its \<^verbatim>\<open>stack\<close>) has the value the
  patch gives that key and keeps its stored value when the patch does not mention the key
  or the sub-object; the scalar fields likewise; \<^verbatim>\<open>rollback_stack\<close> is the supplied list
  when one is supplied and the stored list otherwise. Consequently, for distinct credential
  keys \<open>a\<close> and \<open>b\<close>, patching \<^verbatim>\<open>{credentials:{a}}\<close> and then \<^verbatim>\<open>{credentials:{b}}\<close> leaves the
  same file and returns the same state as patching \<^verbatim>\<open>{credentials:{a,b}}\<close> once.
\<close>

theorem patch_merges:
  "patch (Some st) p = Inr (Some (patch_next st p), patch_next st p)
   \<and> (\<forall>k. credential_of (credentials (patch_next st p)) k =
          (case patch_credentials p of None \<Rightarrow> credential_of (credentials st) k
           | Some cs \<Rightarrow> (case cs k of None \<Rightarrow> credential_of (credentials st) k | Some v \<Rightarrow> v)))
   \<and> (\<forall>k. resource_of (resources (patch_next st p)) k =
          (case patch_resources p of None \<Rightarrow> resource_of (resources st) k
           | Some rs \<Rightarrow> (case rs k of None \<Rightarrow> resource_of (resources st) k | Some v \<Rightarrow> v)))
   \<and> project_name (config (patch_next st p)) =
          (case patch_config p of None \<Rightarrow> project_name (config st)
           | Some cp \<Rightarrow> (case patch_project_name cp of None \<Rightarrow> project_name (config st) | Some v \<Rightarrow> v))
   \<and> stack (config (patch_next st p)) =
          (case patch_config p of None \<Rightarrow> stack (config st)
           | Some cp \<Rightarrow>
               (case patch_stack cp of None \<Rightarrow> stack (config st)
                | Some sp \<Rightarrow>
                    \<lparr>frontend = (case patch_frontend sp of None \<Rightarrow> frontend (stack (config st)) | Some v \<Rightarrow> v),
                     backend = (case patch_backend sp of None \<Rightarrow> backend (stack (config st)) | Some v \<Rightarrow> v)\<rparr>))
   \<and> status (patch_next st p) = (case patch_status p of None \<Rightarrow> status st | Some v \<Rightarrow> v)
   \<and> state_version (patch_next st p) = (case patch_state_version p of None \<Rightarrow> state_version st | Some v \<Rightarrow> v)
   \<and> run_id (patch_next st p) = (case patch_run_id p of None \<Rightarrow> run_id st | Some v \<Rightarrow> v)
   \<and> current_phase (patch_next st p) = (case patch_current_phase p of None \<Rightarrow> current_phase st | Some v \<Rightarrow> v)
   \<and> rollback_stack (patch_next st p) =
          (case patch_rollback_stack p of None \<Rightarrow> rollback_stack st | Some s \<Rightarrow> s)
   \<and> (a \<noteq> b \<longrightarrow>
        (case patch (Some st) (credentials_patch [a \<mapsto> va]) of
           Inl e \<Rightarrow> Inl e
         | Inr (file, s) \<Rightarrow> patch file (credentials_patch [b \<mapsto> vb]))
        = patch (Some st) (credentials_patch [a \<mapsto> va, b \<mapsto> vb]))"
proof -
  have creds: "credentials (patch_next st p) = spread_credentials (credentials st) (patch_credentials p)"
    and ress: "resources (patch_next st p) = spread_resources (resources st) (patch_resources p)"
    by (simp_all add: patch_next_def)
  have name: "project_name (config (patch_next st p)) =
          (case patch_config p of None \<Rightarrow> project_name (config st)
           | Some cp \<Rightarrow> (case patch_project_name cp of None \<Rightarrow> project_name (config st) | Some v \<Rightarrow> v))"
    by (simp add: patch_next_def spread_config_def spread_def split: option.splits)
  have stk: "stack (config (patch_next st p)) =
          (case patch_config p of None \<Rightarrow> stack (config st)
           | Some cp \<Rightarrow>
               (case patch_stack cp of None \<Rightarrow> stack (config st)
                | Some sp \<Rightarrow>
                    \<lparr>frontend = (case patch_frontend sp of None \<Rightarrow> frontend (stack (config st)) | Some v \<Rightarrow> v),
                     backend = (case patch_backend sp of None \<Rightarrow> backend (stack (config st)) | Some v \<Rightarrow> v)\<rparr>))"
    by (simp add: patch_next_def spread_config_def spread_stack_def spread_def split: option.splits)
  have scalars: "status (patch_next st p) = (case patch_status p of None \<Rightarrow> status st | Some v \<Rightarrow> v)"
    "state_version (patch_next st p) = (case patch_state_version p of None \<Rightarrow> state_version st | Some v \<Rightarrow> v)"
    "run_id (patch_next st p) = (case patch_run_id p of None \<Rightarrow> run_id st | Some v \<Rightarrow> v)"
    "current_phase (patch_next st p) = (case patch_current_phase p of None \<Rightarrow> current_phase st | Some v \<Rightarrow> v)"
    by (simp_all add: patch_next_def spread_def)
  have rb: "rollback_stack (patch_next st p) =
          (case patch_rollback_stack p of None \<Rightarrow> rollback_stack st | Some s \<Rightarrow> s)"
    by (simp add: patch_next_def)
  have twice: "a \<noteq> b \<longrightarrow>
        (case patch (Some st) (credentials_patch [a \<mapsto> va]) of
           Inl e \<Rightarrow> Inl e
         | Inr (file, s) \<Rightarrow> patch file (credentials_patch [b \<mapsto> vb]))
        = patch (Some st) (credentials_patch [a \<mapsto> va, b \<mapsto> vb])"
    by (simp add: patch_stored patch_twice_credentials)
  show ?thesis
    using name stk scalars rb twice
    by (simp only: patch_stored creds ress credential_of_spread resource_of_spread simp_thms)
qed

text \<open>A stored state with a hosting token and a rollback entry, for the concrete runs.\<close>

definition sample_state :: ManifoldState where
  "sample_state = (createDefaultState ''1700000000000'' ''demo'' Flask)
     \<lparr>credentials := \<lparr>vercel_token = Some ''tok'', supabase_access_token = None, supabase_url = None,
                      supabase_publishable_key = None\<rparr>,
      rollback_stack := [''gh repo delete octo/demo --yes'']\<rparr>"

theorem patch_merges_witness:
  "Supabase_url \<noteq> Supabase_publishable_key
   \<and> patch (Some sample_state) (credentials_patch [Supabase_url \<mapsto> Some ''https://x''])
       = Inr (Some (patch_next sample_state (credentials_patch [Supabase_url \<mapsto> Some ''https://x''])),
              patch_next sample_state (credentials_patch [Supabase_url \<mapsto> Some ''https://x'']))
   \<and> vercel_token (credentials (patch_next sample_state
         (credentials_patch [Supabase_url \<mapsto> Some ''https://x'']))) = Some ''tok''
   \<and> supabase_url (credentials (patch_next sample_state
         (credentials_patch [Supabase_url \<mapsto> Some ''https://x'']))) = Some ''https://x''
   \<and> rollback_stack (patch_next sample_state
         (credentials_patch [Supabase_url \<mapsto> Some ''https://x''])) = [''gh repo delete octo/demo --yes'']
   \<and> (case patch (Some sample_state) (credentials_patch [Supabase_url \<mapsto> Some ''https://x'']) of
         Inl e \<Rightarrow> Inl e
       | Inr (file, s) \<Rightarrow> patch file (credentials_patch [Supabase_publishable_key \<mapsto> Some ''pk'']))
      = patch (Some sample_state)
          (credentials_patch [Supabase_url \<mapsto> Some ''https://x'', Supabase_publishable_key \<mapsto> Some ''pk''])"
  using patch_merges [of sample_state "credentials_patch [Supabase_url \<mapsto> Some ''https://x'']"
      Supabase_url Supabase_publishable_key "Some ''https://x''" "Some ''pk''"]
  by (simp add: sample_state_def createDefaultState_def credentials_patch_def no_patch_def
      patch_def read_state_def Let_def patch_next_def spread_credentials_def spread_resources_def
      spread_config_def spread_stack_def spread_def)

section \<open>Properties of the Rollback Manager\<close>

lemma rev_last_butlast: "xs \<noteq> [] \<Longrightarrow> rev xs = last xs # rev (butlast xs)"
  by (induction xs) auto

lemma rollbackStack_rollback_one:
  "rollbackStack (rollback_one sh dir command st1) = rollbackStack st1"
  by (simp add: rollback_one_def exec_in_def push_output_def Let_def)

lemma executed_rollback_one:
  "executed (rollback_one sh dir command st1)
     = executed st1 @ [\<lparr>commandLine = command, cwd = dir, timeoutMs = 90000\<rparr>]"
  by (simp add: rollback_one_def exec_in_def push_output_def Let_def)

text \<open>
  Claim C4: for every shell (whatever commands fail in it) and every rollback stack,
  \<^verbatim>\<open>runRollback\<close> returns, leaves the stack empty, and has executed exactly the commands of
  the stack in the reverse of the order in which they were pushed, one call each (an entry
  that is the empty string is no command and is dropped). Pushed as C1 then C2, C2 runs
  before C1.
\<close>

theorem runRollback_reverse_order:
  "rollbackStack (runRollback sh dir st) = []
   \<and> executed (runRollback sh dir st)
       = executed st @ map (\<lambda>c. \<lparr>commandLine = c, cwd = dir, timeoutMs = 90000\<rparr>)
                          (filter (\<lambda>c. c \<noteq> []) (rev (rollbackStack st)))"
proof (induction sh dir st rule: runRollback.induct)
  case (1 sh dir st)
  show ?case
  proof (cases "rollbackStack st = []")
    case True
    then have "runRollback sh dir st = st"
      by (subst runRollback.simps) simp
    with True show ?thesis by simp
  next
    case ne: False
    show ?thesis
    proof (cases "last (rollbackStack st) = []")
      case True
      have unfold: "runRollback sh dir st = runRollback sh dir (st\<lparr>rollbackStack := butlast (rollbackStack st)\<rparr>)"
        using ne True by (subst runRollback.simps) (simp add: Let_def)
      from 1(1) [OF ne refl refl True] ne True show ?thesis
        unfolding unfold by (simp add: rev_last_butlast)
    next
      case False
      have unfold: "runRollback sh dir st = runRollback sh dir
          (rollback_one sh dir (last (rollbackStack st)) (st\<lparr>rollbackStack := butlast (rollbackStack st)\<rparr>))"
        using ne False by (subst runRollback.simps) (simp add: Let_def)
      from 1(2) [OF ne refl refl False] ne False show ?thesis
        unfolding unfold by (simp add: rev_last_butlast executed_rollback_one rollbackStack_rollback_one)
    qed
  qed
qed

theorem runRollback_reverse_order_witness:
  "exec_error (fresh_repo_shell (call_in ''/w'' ''gh repo delete octo/demo --yes''))
   \<and> rollbackStack (runRollback fresh_repo_shell ''/w''
        (push_rollback ''vercel project rm demo --yes''
          (push_rollback ''gh repo delete octo/demo --yes'' prov_start))) = []
   \<and> executed (runRollback fresh_repo_shell ''/w''
        (push_rollback ''vercel project rm demo --yes''
          (push_rollback ''gh repo delete octo/demo --yes'' prov_start)))
      = [call_in ''/w'' ''vercel project rm demo --yes'', call_in ''/w'' ''gh repo delete octo/demo --yes'']"
proof -
  have failing: "exec_error (fresh_repo_shell (call_in ''/w'' ''gh repo delete octo/demo --yes''))"
    by code_simp
  show ?thesis
    using failing runRollback_reverse_order [of fresh_repo_shell "''/w''"
        "push_rollback ''vercel project rm demo --yes''
          (push_rollback ''gh repo delete octo/demo --yes'' prov_start)"]
    by (simp add: push_rollback_def prov_start_def call_in_def)
qed

section \<open>Properties of the Resource Provisioner\<close>

lemma run_eq:
  "run sh command args dir t st
     = (run_result sh command args dir t,
        st\<lparr>executed := executed st @ [\<lparr>commandLine = command_line command args, cwd = dir, timeoutMs = t\<rparr>]\<rparr>)"
  by (simp add: run_result_def run_def exec_in_def Let_def)

lemma ensureGitRepository_ready:
  assumes "git_ready sh root"
  shows "\<exists>st'. ensureGitRepository sh root st = (Inr (), st') \<and> rollbackStack st' = rollbackStack st"
  using assms
  by (auto simp: ensureGitRepository_def git_ready_def run_eq push_output_def Let_def)

lemma ensureGitHubRepo_existing:
  assumes "git_ready sh root" "login_is sh root owner" "repo_exists sh root owner name"
  shows "\<exists>st'. ensureGitHubRepo sh name root st = (Inr (owner @ ''/'' @ name), st')
           \<and> rollbackStack st' = rollbackStack st
           \<and> executed st' = executed (snd (ensureGitRepository sh root st))
                @ [\<lparr>commandLine = command_line ''gh'' [''api'', ''user'', ''--jq'', ''.login''],
                    cwd = root, timeoutMs = 90000\<rparr>,
                   \<lparr>commandLine = command_line ''gh'' [''repo'', ''view'', owner @ ''/'' @ name, ''--json'', ''name''],
                    cwd = root, timeoutMs = 90000\<rparr>]"
proof -
  obtain st1 where g: "ensureGitRepository sh root st = (Inr (), st1)" "rollbackStack st1 = rollbackStack st"
    using ensureGitRepository_ready [OF assms(1)] by blast
  from assms(2) have out: "output_str (run_result sh ''gh'' [''api'', ''user'', ''--jq'', ''.login''] root 90000) \<noteq> []"
    by (auto simp: login_is_def first_nonempty_line_def split_lines_def trim_def)
  show ?thesis
    using assms(2,3) out g
    by (simp add: ensureGitHubRepo_def login_is_def repo_exists_def run_eq push_output_def Let_def)
qed

lemma ensureVercelProject_no_compensation:
  assumes "project_exists sh root name"
  shows "rollbackStack (snd (ensureVercelProject sh name root st)) = rollbackStack st"
  using assms
  by (auto simp: ensureVercelProject_def project_exists_def run_eq push_output_def Let_def)

lemma ensureVercelProject_existing:
  assumes "project_exists sh root name" "link_accepted sh root name"
  shows "\<exists>st'. ensureVercelProject sh name root st = (Inr name, st')
           \<and> rollbackStack st' = rollbackStack st"
  using assms
  by (auto simp: ensureVercelProject_def project_exists_def link_accepted_def run_eq
        push_output_def Let_def)

lemma ensureInitialCommit_stack:
  "rollbackStack (snd (ensureInitialCommit sh root st)) = rollbackStack st"
  by (simp add: ensureInitialCommit_def run_eq push_output_def Let_def split: prod.splits)

lemma ensureInitialCommit_stackD:
  "ensureInitialCommit sh root st = (b, st') \<Longrightarrow> rollbackStack st' = rollbackStack st"
  using ensureInitialCommit_stack [of sh root st] by simp

text \<open>
  The repository path: when the repository is not found and its creation succeeds, the
  function returns with the deletion command pushed, whatever the commit and the push that
  follow the creation do.
\<close>

lemma github_created_registered:
  assumes "git_ready sh root" "login_is sh root owner" "\<not> repo_exists sh root owner name"
    and "ok (run_result sh ''gh'' [''repo'', ''create'', name, ''--private'', ''--source'', ''.'',
                                   ''--remote'', ''origin''] root 180000)"
  shows "fst (ensureGitHubRepo sh name root st) = Inr (owner @ ''/'' @ name)
       \<and> rollbackStack (snd (ensureGitHubRepo sh name root st))
           = rollbackStack st @ [''gh repo delete '' @ owner @ ''/'' @ name @ '' --yes'']"
proof -
  obtain st1 where g: "ensureGitRepository sh root st = (Inr (), st1)" "rollbackStack st1 = rollbackStack st"
    using ensureGitRepository_ready [OF assms(1)] by blast
  from assms(2) have out: "output_str (run_result sh ''gh'' [''api'', ''user'', ''--jq'', ''.login''] root 90000) \<noteq> []"
    by (auto simp: login_is_def first_nonempty_line_def split_lines_def trim_def)
  show ?thesis
    using assms(2,3,4) out g
    by (auto simp: ensureGitHubRepo_def login_is_def repo_exists_def run_eq push_output_def
        push_rollback_def Let_def split: prod.splits dest!: ensureInitialCommit_stackD)
qed

text \<open>
  The hosting-project path: when the project is not found, its creation succeeds and the
  link step is not accepted, the function throws after logging the creation, with the
  rollback stack as it was on entry.
\<close>

lemma vercel_created_unregistered:
  assumes "\<not> ok (run_result sh ''vercel'' [''project'', ''inspect'', name] root 90000)"
    and "ok (run_result sh ''vercel'' [''project'', ''add'', name] root 180000)"
    and "\<not> includes_ci (output_str (run_result sh ''vercel'' [''project'', ''add'', name] root 180000)) ''already exists''"
    and "\<not> link_accepted sh root name"
  shows "\<exists>e. fst (ensureVercelProject sh name root st) = Inl e"
    and "rollbackStack (snd (ensureVercelProject sh name root st)) = rollbackStack st"
    and "''vercel project created: '' @ name \<in> set (output_lines (snd (ensureVercelProject sh name root st)))"
  using assms
  by (auto simp: ensureVercelProject_def link_accepted_def run_eq push_output_def Let_def)

text \<open>
  Claim C3 holds on the repository path and fails on the hosting-project path, where the
  removal command is pushed only after the link step: when the project has just been
  created and linking fails, the function throws with the project's compensation not on
  the stack. In the run below the project is created (the \<^verbatim>\<open>project add\<close> call succeeds and
  "vercel project created" is logged), the link call fails, provisioning reports failure,
  and the rollback executes nothing: no \<^verbatim>\<open>vercel project rm\<close> call follows.
\<close>

theorem vercel_link_failure_leaks_project:
  "runProvisioning fresh_project_shell ''/w/demo'' ''demo''
   = (\<lparr>provision_ok = False, githubRepo = None, vercelProjectId = None, result_rollbackStack = [],
       result_output = [''github repo exists: octo/demo'', ''vercel project created: demo'',
                        ''Vercel link failed: Error: request timed out'']\<rparr>,
      [call_in ''/w/demo'' ''git rev-parse --is-inside-work-tree'',
       call_in ''/w/demo'' ''gh api user --jq .login'',
       call_in ''/w/demo'' ''gh repo view octo/demo --json name'',
       call_in ''/w/demo'' ''vercel project inspect demo'',
       (call_in ''/w/demo'' ''vercel project add demo'')\<lparr>timeoutMs := 180000\<rparr>,
       (call_in ''/w/demo'' ''vercel link --yes --project demo'')\<lparr>timeoutMs := 180000\<rparr>])"
  by code_simp

text \<open>The sibling path: a repository just created is deleted again when a later step fails.\<close>

lemma github_compensation_runs:
  "map commandLine (snd (runProvisioning fresh_repo_shell ''/w/demo'' ''demo''))
   = [''git rev-parse --is-inside-work-tree'', ''gh api user --jq .login'',
      ''gh repo view octo/demo --json name'',
      ''gh repo create demo --private --source . --remote origin'',
      ''git rev-parse --verify HEAD'', ''git push -u origin HEAD'',
      ''vercel project inspect demo'', ''vercel project add demo'',
      ''gh repo delete octo/demo --yes'']"
  by code_simp

text \<open>
  Claim C7, as stated, fails on the code: with the repository and the hosting project both
  in place, a failing link step makes the provisioner report \<^verbatim>\<open>ok = false\<close>.
\<close>

theorem existing_resources_link_failure_counterexample:
  "repo_exists link_broken_shell ''/w/demo'' ''octo'' ''demo''
   \<and> project_exists link_broken_shell ''/w/demo'' ''demo''
   \<and> \<not> provision_ok (fst (runProvisioning link_broken_shell ''/w/demo'' ''demo''))"
  by code_simp

text \<open>
  Claim C7, amended: when the repository of the derived name exists (the directory being a
  git work tree or initialisable, and the identity lookup answering), the provisioner
  returns its name after the lookup and the view call alone, creating nothing and leaving
  the rollback stack as it was; when the hosting project exists, it leaves the rollback
  stack as it was; and when, in addition, the link step is accepted, provisioning reports
  \<^verbatim>\<open>ok = true\<close> with both identifiers and an empty rollback stack. This holds for every
  invocation against such a shell, hence for the first and the second.
\<close>

theorem provisioning_reuses_existing:
  "(git_ready sh root \<and> login_is sh root owner \<and> repo_exists sh root owner name \<longrightarrow>
      (\<exists>st'. ensureGitHubRepo sh name root st = (Inr (owner @ ''/'' @ name), st')
          \<and> rollbackStack st' = rollbackStack st
          \<and> executed st' = executed (snd (ensureGitRepository sh root st))
               @ [\<lparr>commandLine = command_line ''gh'' [''api'', ''user'', ''--jq'', ''.login''],
                   cwd = root, timeoutMs = 90000\<rparr>,
                  \<lparr>commandLine = command_line ''gh'' [''repo'', ''view'', owner @ ''/'' @ name, ''--json'', ''name''],
                   cwd = root, timeoutMs = 90000\<rparr>]))
   \<and> (project_exists sh root name \<longrightarrow>
        rollbackStack (snd (ensureVercelProject sh name root st)) = rollbackStack st)
   \<and> (git_ready sh root \<and> login_is sh root owner \<and> repo_exists sh root owner name
        \<and> project_exists sh root name \<and> link_accepted sh root name \<longrightarrow>
        provision_ok (fst (runProvisioning sh root name))
        \<and> githubRepo (fst (runProvisioning sh root name)) = Some (owner @ ''/'' @ name)
        \<and> vercelProjectId (fst (runProvisioning sh root name)) = Some name
        \<and> result_rollbackStack (fst (runProvisioning sh root name)) = [])"
proof -
  have run_ok: "provision_ok (fst (runProvisioning sh root name))
        \<and> githubRepo (fst (runProvisioning sh root name)) = Some (owner @ ''/'' @ name)
        \<and> vercelProjectId (fst (runProvisioning sh root name)) = Some name
        \<and> result_rollbackStack (fst (runProvisioning sh root name)) = []"
    if h: "git_ready sh root" "login_is sh root owner" "repo_exists sh root owner name"
      "project_exists sh root name" "link_accepted sh root name"
  proof -
    obtain st1 where 1: "ensureGitHubRepo sh name root prov_start = (Inr (owner @ ''/'' @ name), st1)"
      "rollbackStack st1 = rollbackStack prov_start"
      using ensureGitHubRepo_existing [OF h(1,2,3), of prov_start] by blast
    obtain st2 where 2: "ensureVercelProject sh name root st1 = (Inr name, st2)"
      "rollbackStack st2 = rollbackStack st1"
      using ensureVercelProject_existing [OF h(4,5), of st1] by blast
    have "runProvisioning sh root name =
      (\<lparr>provision_ok = True, githubRepo = Some (owner @ ''/'' @ name), vercelProjectId = Some name,
        result_rollbackStack = [], result_output = output_lines st2\<rparr>, executed st2)"
      using 1 2 by (simp add: runProvisioning_def prov_start_def)
    then show ?thesis by simp
  qed
  show ?thesis
    using ensureGitHubRepo_existing [of sh root owner name st]
      ensureVercelProject_no_compensation [of sh root name st] run_ok
    by blast
qed

theorem provisioning_reuses_existing_witness:
  "git_ready existing_shell ''/w/demo'' \<and> login_is existing_shell ''/w/demo'' ''octo''
   \<and> repo_exists existing_shell ''/w/demo'' ''octo'' ''demo''
   \<and> project_exists existing_shell ''/w/demo'' ''demo''
   \<and> link_accepted existing_shell ''/w/demo'' ''demo''
   \<and> rollbackStack (snd (ensureVercelProject existing_shell ''demo'' ''/w/demo'' prov_start))
       = rollbackStack prov_start
   \<and> provision_ok (fst (runProvisioning existing_shell ''/w/demo'' ''demo''))
   \<and> githubRepo (fst (runProvisioning existing_shell ''/w/demo'' ''demo'')) = Some ''octo/demo''
   \<and> vercelProjectId (fst (runProvisioning existing_shell ''/w/demo'' ''demo'')) = Some ''demo''
   \<and> result_rollbackStack (fst (runProvisioning existing_shell ''/w/demo'' ''demo'')) = []"
proof -
  have h: "git_ready existing_shell ''/w/demo''" "login_is existing_shell ''/w/demo'' ''octo''"
    "repo_exists existing_shell ''/w/demo'' ''octo'' ''demo''"
    "project_exists existing_shell ''/w/demo'' ''demo''"
    "link_accepted existing_shell ''/w/demo'' ''demo''"
    by code_simp+
  show ?thesis
    using h provisioning_reuses_existing [of existing_shell "''/w/demo''" "''octo''" "''demo''" prov_start]
    by simp
qed

section \<open>Properties of the Deployment Log Analyzer\<close>

lemma leftmost_append_skip:
  "(\<And>i. i < length xs \<Longrightarrow> at (drop i xs @ ys) = None) \<Longrightarrow> leftmost at (xs @ ys) = leftmost at ys"
proof (induction xs)
  case Nil
  then show ?case by simp
next
  case (Cons x xs)
  have 0: "at ((x # xs) @ ys) = None" using Cons.prems [of 0] by simp
  have "at (drop i xs @ ys) = None" if "i < length xs" for i
    using Cons.prems [of "Suc i"] that by simp
  then have "leftmost at (xs @ ys) = leftmost at ys" by (rule Cons.IH)
  with 0 show ?case by simp
qed

lemma str_includes_dropI:
  "take (length p) (drop i s) = p \<Longrightarrow> i \<le> length s \<Longrightarrow> str_includes s p"
proof (induction s arbitrary: i)
  case Nil
  then show ?case by simp
next
  case (Cons c cs)
  show ?case
  proof (cases i)
    case 0
    with Cons.prems show ?thesis by (simp add: startsWith_def)
  next
    case (Suc j)
    with Cons.prems Cons.IH [of j] show ?thesis by simp
  qed
qed

lemma lower_newline: "lower_char newline = newline"
  by (simp add: lower_char_def newline_def upper_letters_def lower_letters_def)

text \<open>A pattern without a line feed does not match across the end of a text in which it
  does not occur.\<close>

lemma not_prefix_across_newline:
  assumes "\<not> includes_ci J p" and "i \<le> length J" and "newline \<notin> set (toLowerCase p)"
  shows "\<not> startsWith_ci (drop i J @ newline # R) p"
proof
  assume a: "startsWith_ci (drop i J @ newline # R) p"
  let ?t = "drop i J"
  show False
  proof (cases "length p \<le> length ?t")
    case True
    with a have "toLowerCase (take (length p) ?t) = toLowerCase p"
      by (simp add: startsWith_ci_def)
    then have "take (length (toLowerCase p)) (drop i (toLowerCase J)) = toLowerCase p"
      by (simp add: toLowerCase_def take_map drop_map)
    then have "str_includes (toLowerCase J) (toLowerCase p)"
      using assms(2) by (intro str_includes_dropI [of _ i]) (simp_all add: toLowerCase_def)
    with assms(1) show False by (simp add: includes_ci_def)
  next
    case False
    then have "take (length p) (?t @ newline # R) = ?t @ newline # take (length p - length ?t - 1) R"
      by (simp add: take_Cons' not_le)
    with a have "toLowerCase (?t @ newline # take (length p - length ?t - 1) R) = toLowerCase p"
      by (simp add: startsWith_ci_def)
    then have "lower_char newline \<in> set (toLowerCase p)"
      unfolding toLowerCase_def by (metis in_set_conv_decomp list.simps(9) map_append)
    with assms(3) show False by (simp add: lower_newline)
  qed
qed

lemma match_aliased_line_end: "match_aliased alias_line = Some ''https://app-demo.example-host.app''"
  unfolding alias_line_def by code_simp

lemma match_aliased_line_more:
  "match_aliased (alias_line @ newline # S) = Some ''https://app-demo.example-host.app''"
  by (simp add: alias_line_def match_aliased_def startsWith_ci_def toLowerCase_def lower_char_def
      upper_letters_def lower_letters_def match_http_url_def scheme_length_def is_space_def
      white_space_def newline_def Let_def)

lemma join_lines_append:
  "join_lines (before @ l # after)
     = (if before = [] then [] else join_lines before @ [newline]) @ l
       @ (if after = [] then [] else newline # join_lines after)"
proof (induction before rule: join_lines.induct)
  case 1
  then show ?case by (cases after) simp_all
next
  case (2 b)
  then show ?case by (cases after) simp_all
next
  case (3 b c bs)
  then show ?case by simp
qed

lemma aliased_line_wins:
  assumes "\<not> includes_ci (join_lines before) ''aliased:''"
  shows "extractVercelPublicUrl (before @ alias_line # after) = Some ''https://app-demo.example-host.app''"
proof -
  let ?S = "if after = [] then [] else newline # join_lines after"
  let ?P = "if before = [] then [] else join_lines before @ [newline]"
  have nl: "newline \<notin> set (toLowerCase ''aliased:'')"
    by (simp add: toLowerCase_def lower_char_def newline_def upper_letters_def lower_letters_def)
  have here: "match_aliased (alias_line @ ?S) = Some ''https://app-demo.example-host.app''"
    by (simp add: match_aliased_line_end match_aliased_line_more)
  have skip: "match_aliased (drop i ?P @ alias_line @ ?S) = None" if "i < length ?P" for i
  proof -
    from that have ne: "before \<noteq> []" and i: "i \<le> length (join_lines before)"
      by (auto split: if_splits)
    have "\<not> startsWith_ci (drop i (join_lines before) @ newline # (alias_line @ ?S)) ''aliased:''"
      by (rule not_prefix_across_newline [OF assms i nl])
    with ne i show ?thesis by (simp add: match_aliased_def)
  qed
  have "leftmost match_aliased (?P @ alias_line @ ?S) = leftmost match_aliased (alias_line @ ?S)"
    by (rule leftmost_append_skip) (rule skip)
  also have "\<dots> = Some ''https://app-demo.example-host.app''"
    using here by (cases "alias_line @ ?S") (simp_all add: alias_line_def)
  finally show ?thesis
    by (simp add: extractVercelPublicUrl_def join_lines_append Let_def)
qed

lemma log_examples_evaluated:
  "parseDeploymentLog [enoent_line]
     = [\<lparr>error_line = enoent_line, error_type = Build,
         suggestion = ''Run `npm run build` or `pip install` locally to debug build issues.''\<rparr>]
   \<and> nonempty_lines aliased_output = [''Production: https://app-demo-abc123.vercel.app [2s]'', alias_line]
   \<and> \<not> includes_ci (join_lines [''Production: https://app-demo-abc123.vercel.app [2s]'']) ''aliased:''
   \<and> extractDeploymentUrl (nonempty_lines aliased_output) = Some ''https://app-demo-abc123.vercel.app''"
  by code_simp

text \<open>
  Claim C8: the line \<^verbatim>\<open>Error: ENOENT: missing module 'foo'\<close> is selected and classified as
  \<^verbatim>\<open>build\<close>. For every output whose lines include the line
  \<^verbatim>\<open>Aliased: https://app-demo.example-host.app\<close>, with no \<^verbatim>\<open>aliased:\<close> (in any letter case) in
  the lines before it, the public URL extracted is exactly that string, and the deployment
  result reports it as the public URL whether the deploy process exits zero or not; on the
  example output the extracted deployment URL is the raw one, a different string.
\<close>

theorem log_analyzer_examples:
  "parseDeploymentLog [enoent_line]
     = [\<lparr>error_line = enoent_line, error_type = Build,
         suggestion = ''Run `npm run build` or `pip install` locally to debug build issues.''\<rparr>]
   \<and> (\<not> includes_ci (join_lines before) ''aliased:'' \<longrightarrow>
        extractVercelPublicUrl (before @ alias_line # after) = Some ''https://app-demo.example-host.app''
        \<and> (output_lines_of (sh (frontend_call root tok)) = before @ alias_line # after \<longrightarrow>
             publicUrl (runDeployment sh root tok ref) = Some ''https://app-demo.example-host.app''))
   \<and> extractDeploymentUrl (nonempty_lines aliased_output) = Some ''https://app-demo-abc123.vercel.app''"
proof -
  have "publicUrl (runDeployment sh root tok ref) = Some ''https://app-demo.example-host.app''"
    if "\<not> includes_ci (join_lines before) ''aliased:''"
      and "output_lines_of (sh (frontend_call root tok)) = before @ alias_line # after"
    using aliased_line_wins [OF that(1), of after] that(2)
    by (simp add: runDeployment_def Let_def)
  then show ?thesis
    using log_examples_evaluated aliased_line_wins [of before after] by blast
qed

theorem log_analyzer_examples_witness:
  "\<not> includes_ci (join_lines [''Production: https://app-demo-abc123.vercel.app [2s]'']) ''aliased:''
   \<and> output_lines_of (deploy_shell aliased_output (frontend_call ''/w/demo'' None))
       = [''Production: https://app-demo-abc123.vercel.app [2s]''] @ alias_line # []
   \<and> output_lines_of (failing_deploy_shell aliased_output (frontend_call ''/w/demo'' None))
       = [''Production: https://app-demo-abc123.vercel.app [2s]''] @ alias_line # []
   \<and> extractVercelPublicUrl ([''Production: https://app-demo-abc123.vercel.app [2s]''] @ alias_line # [])
       = Some ''https://app-demo.example-host.app''
   \<and> publicUrl (runDeployment (deploy_shell aliased_output) ''/w/demo'' None None)
       = Some ''https://app-demo.example-host.app''
   \<and> publicUrl (runDeployment (failing_deploy_shell aliased_output) ''/w/demo'' None None)
       = Some ''https://app-demo.example-host.app''
   \<and> frontendUrl (runDeployment (deploy_shell aliased_output) ''/w/demo'' None None)
       = Some ''https://app-demo-abc123.vercel.app''"
proof -
  have no_alias: "\<not> includes_ci (join_lines [''Production: https://app-demo-abc123.vercel.app [2s]'']) ''aliased:''"
    by code_simp
  have lines: "output_lines_of (deploy_shell aliased_output (frontend_call ''/w/demo'' None))
       = [''Production: https://app-demo-abc123.vercel.app [2s]''] @ alias_line # []"
    "output_lines_of (failing_deploy_shell aliased_output (frontend_call ''/w/demo'' None))
       = [''Production: https://app-demo-abc123.vercel.app [2s]''] @ alias_line # []"
    by code_simp+
  have raw: "frontendUrl (runDeployment (deploy_shell aliased_output) ''/w/demo'' None None)
       = Some ''https://app-demo-abc123.vercel.app''"
    by code_simp
  show ?thesis
    using no_alias lines raw
      log_analyzer_examples [of "[''Production: https://app-demo-abc123.vercel.app [2s]'']" "[]"
        "deploy_shell aliased_output" "''/w/demo''" None None]
      log_analyzer_examples [of "[''Production: https://app-demo-abc123.vercel.app [2s]'']" "[]"
        "failing_deploy_shell aliased_output" "''/w/demo''" None None]
    by simp
qed

lemma accepted_candidate_hosting: "accepted_candidate m = Some u \<Longrightarrow> hosting_text u"
  by (auto simp: accepted_candidate_def Let_def split: option.splits if_splits)

lemma extractDeploymentUrl_hosting: "extractDeploymentUrl ls = Some u \<Longrightarrow> hosting_text u"
  by (auto simp: extractDeploymentUrl_def Let_def split: option.splits dest: accepted_candidate_hosting)

section \<open>Properties of the Phase Orchestrator\<close>

lemma do_patch_simps:
  "state_file (do_patch p r) = patch_next (state_file r) p"
  "written (do_patch p r) = written r @ [patch_next (state_file r) p]"
  "effects (do_patch p r) = effects r"
  by (simp_all add: do_patch_def)

lemma do_effects_simps:
  "state_file (do_effects es r) = state_file r"
  "written (do_effects es r) = written r"
  "effects (do_effects es r) = effects r @ es"
  by (simp_all add: do_effects_def)

lemma patch_next_status:
  "status (patch_next s p) = (case patch_status p of None \<Rightarrow> status s | Some v \<Rightarrow> v)"
  by (simp add: patch_next_def spread_def)



text \<open>
  Claim C10, as stated, fails on the code: the test on a candidate is whether the text
  \<^verbatim>\<open>vercel.app\<close> or \<^verbatim>\<open>web.app\<close> occurs anywhere in it. A URL captured through the \<^verbatim>\<open>url:\<close>
  label whose host is another domain but whose path contains that text is returned, and
  the deployment reports \<^verbatim>\<open>ok = true\<close> on it.
\<close>

theorem label_url_other_domain_counterexample:
  "\<not> on_hosting_domain ''https://evil.example/vercel.app''
   \<and> extractDeploymentUrl [''url: https://evil.example/vercel.app''] = Some ''https://evil.example/vercel.app''
   \<and> deploy_ok (runDeployment (deploy_shell ''url: https://evil.example/vercel.app'') ''/w/demo'' None None)"
  by code_simp

text \<open>
  Claim C10, amended: the deployment result reports \<^verbatim>\<open>ok = true\<close> only when both deploy
  processes exit zero and a URL containing the text \<^verbatim>\<open>vercel.app\<close> or \<^verbatim>\<open>web.app\<close> is
  extracted from the frontend output; a frontend deploy that exits zero with no URL
  extracted yields \<^verbatim>\<open>ok = false\<close> and a null frontend URL; on \<^verbatim>\<open>ok = false\<close> the
  orchestrator ends phase 5 with status \<^verbatim>\<open>paused_at_auth\<close>; and when the two hostname
  patterns yield nothing, a URL captured through the \<^verbatim>\<open>url:\<close> label that contains neither
  text is discarded, leaving the extracted URL null.
\<close>

theorem deploy_ok_needs_hosting_text:
  "(deploy_ok (runDeployment sh root tok ref) \<longrightarrow>
      \<not> exec_error (sh (frontend_call root tok)) \<and> \<not> exec_error (sh (backend_call root ref))
      \<and> (\<exists>u. extractDeploymentUrl (output_lines_of (sh (frontend_call root tok))) = Some u
             \<and> frontendUrl (runDeployment sh root tok ref) = Some u \<and> hosting_text u))
   \<and> (\<not> exec_error (sh (frontend_call root tok))
        \<and> extractDeploymentUrl (output_lines_of (sh (frontend_call root tok))) = None \<longrightarrow>
        \<not> deploy_ok (runDeployment sh root tok ref) \<and> frontendUrl (runDeployment sh root tok ref) = None)
   \<and> (\<not> deploy_ok (runDeployment (shell_of w) root (vercel_token (credentials (state_file r)))
                       (supabase_ref (resources (state_file r)))) \<longrightarrow>
        snd (runDeploymentPhase w root r) = None
        \<and> status (state_file (fst (runDeploymentPhase w root r))) = Paused_at_auth
        \<and> written (fst (runDeploymentPhase w root r)) = written r @ [state_file (fst (runDeploymentPhase w root r))])
   \<and> (accepted_candidate (leftmost (match_host_url ''.vercel.app'') (join_lines ls)) = None
        \<and> accepted_candidate (leftmost (match_host_url ''.web.app'') (join_lines ls)) = None
        \<and> leftmost match_production_url (join_lines ls) = Some g
        \<and> startsWith g ''http'' \<and> \<not> hosting_text g \<longrightarrow>
        extractDeploymentUrl ls = None)"
proof -
  have a: "deploy_ok (runDeployment sh root tok ref) \<longrightarrow>
      \<not> exec_error (sh (frontend_call root tok)) \<and> \<not> exec_error (sh (backend_call root ref))
      \<and> (\<exists>u. extractDeploymentUrl (output_lines_of (sh (frontend_call root tok))) = Some u
             \<and> frontendUrl (runDeployment sh root tok ref) = Some u \<and> hosting_text u)"
    by (auto simp: runDeployment_def Let_def truthy_def split: option.splits
        dest: extractDeploymentUrl_hosting)
  have b: "\<not> exec_error (sh (frontend_call root tok))
        \<and> extractDeploymentUrl (output_lines_of (sh (frontend_call root tok))) = None \<longrightarrow>
        \<not> deploy_ok (runDeployment sh root tok ref) \<and> frontendUrl (runDeployment sh root tok ref) = None"
    by (simp add: runDeployment_def Let_def truthy_def)
  have c: "\<not> deploy_ok (runDeployment (shell_of w) root (vercel_token (credentials (state_file r)))
                       (supabase_ref (resources (state_file r)))) \<longrightarrow>
        snd (runDeploymentPhase w root r) = None
        \<and> status (state_file (fst (runDeploymentPhase w root r))) = Paused_at_auth
        \<and> written (fst (runDeploymentPhase w root r)) = written r @ [state_file (fst (runDeploymentPhase w root r))]"
    by (simp add: runDeploymentPhase_def Let_def do_patch_simps patch_next_status phase_patch_def no_patch_def)
  have d: "accepted_candidate (leftmost (match_host_url ''.vercel.app'') (join_lines ls)) = None
        \<and> accepted_candidate (leftmost (match_host_url ''.web.app'') (join_lines ls)) = None
        \<and> leftmost match_production_url (join_lines ls) = Some g
        \<and> startsWith g ''http'' \<and> \<not> hosting_text g \<longrightarrow>
        extractDeploymentUrl ls = None"
    by (simp add: extractDeploymentUrl_def Let_def accepted_candidate_def)
  from a b c d show ?thesis by blast
qed

theorem deploy_ok_needs_hosting_text_witness:
  "\<not> exec_error (shell_of silent_world (frontend_call ''/w/demo'' None))
   \<and> extractDeploymentUrl (output_lines_of (shell_of silent_world (frontend_call ''/w/demo'' None))) = None
   \<and> \<not> deploy_ok (runDeployment (shell_of silent_world) ''/w/demo'' None (Some ''abcdefghijklmnopqrst''))
   \<and> status (state_file (fst (runDeploymentPhase silent_world ''/w/demo'' deploying_run))) = Paused_at_auth
   \<and> leftmost match_production_url (join_lines [''url: https://evil.example/x'']) = Some ''https://evil.example/x''
   \<and> extractDeploymentUrl [''url: https://evil.example/x''] = None
   \<and> deploy_ok (runDeployment (deploy_shell aliased_output) ''/w/demo'' None None)
   \<and> frontendUrl (runDeployment (deploy_shell aliased_output) ''/w/demo'' None None)
       = Some ''https://app-demo-abc123.vercel.app''
   \<and> hosting_text ''https://app-demo-abc123.vercel.app''"
proof -
  have good: "deploy_ok (runDeployment (deploy_shell aliased_output) ''/w/demo'' None None)"
    "frontendUrl (runDeployment (deploy_shell aliased_output) ''/w/demo'' None None)
       = Some ''https://app-demo-abc123.vercel.app''"
    by code_simp+
  have zero: "\<not> exec_error (shell_of silent_world (frontend_call ''/w/demo'' None))"
    and none: "extractDeploymentUrl (output_lines_of (shell_of silent_world (frontend_call ''/w/demo'' None))) = None"
    by code_simp+
  have tok: "vercel_token (credentials (state_file deploying_run)) = None"
    and ref: "supabase_ref (resources (state_file deploying_run)) = Some ''abcdefghijklmnopqrst''"
    by code_simp+
  have label: "accepted_candidate (leftmost (match_host_url ''.vercel.app'') (join_lines [''url: https://evil.example/x''])) = None"
    "accepted_candidate (leftmost (match_host_url ''.web.app'') (join_lines [''url: https://evil.example/x''])) = None"
    "leftmost match_production_url (join_lines [''url: https://evil.example/x'']) = Some ''https://evil.example/x''"
    "startsWith ''https://evil.example/x'' ''http''" "\<not> hosting_text ''https://evil.example/x''"
    by code_simp+
  show ?thesis
    using zero none label good
      deploy_ok_needs_hosting_text [of "shell_of silent_world" "''/w/demo''" None "Some ''abcdefghijklmnopqrst''"
        silent_world deploying_run "[''url: https://evil.example/x'']" "''https://evil.example/x''"]
      deploy_ok_needs_hosting_text [of "deploy_shell aliased_output" "''/w/demo''" None None]
    by (auto simp add: tok ref)
qed

lemma missing_values_iff:
  "missing_values s \<noteq> [] \<longleftrightarrow>
     absent (github_repo (resources s)) \<or> absent (vercel_project_id (resources s))
     \<or> absent (supabase_url (credentials s)) \<or> absent (supabase_publishable_key (credentials s))"
  by (auto simp: missing_values_def absent_def truthy_def split: option.splits)

text \<open>
  Claim C6: when phase 4 is entered with one of the four required values absent, the
  handler writes one state, with phase \<^verbatim>\<open>1_auth\<close>, status \<^verbatim>\<open>in_progress\<close> and every resource
  and credential field null, deletes the stored backend secrets, makes no call to the
  environment wiring, and goes on to the authentication handler; with all four present it
  wires the environment from them, writes the state with phase \<^verbatim>\<open>5_deploy\<close>, and goes on to
  deployment.
\<close>

theorem env_wiring_self_heals:
  "(absent (github_repo (resources (state_file r))) \<or> absent (vercel_project_id (resources (state_file r)))
     \<or> absent (supabase_url (credentials (state_file r)))
     \<or> absent (supabase_publishable_key (credentials (state_file r)))
    \<longrightarrow> snd (runEnvWiringPhase w root r) = Some AuthHandshake
        \<and> current_phase (state_file (fst (runEnvWiringPhase w root r))) = ''1_auth''
        \<and> status (state_file (fst (runEnvWiringPhase w root r))) = In_progress
        \<and> resources (state_file (fst (runEnvWiringPhase w root r)))
            = \<lparr>github_repo = None, vercel_project_id = None, supabase_ref = None\<rparr>
        \<and> credentials (state_file (fst (runEnvWiringPhase w root r)))
            = \<lparr>vercel_token = None, supabase_access_token = None, supabase_url = None,
               supabase_publishable_key = None\<rparr>
        \<and> written (fst (runEnvWiringPhase w root r))
            = written r @ [state_file (fst (runEnvWiringPhase w root r))]
        \<and> effects (fst (runEnvWiringPhase w root r))
            = effects r @ [DeleteSecret ''manifold.supabase.pat'',
                           DeleteSecret ''manifold.supabase.projectUrl'',
                           DeleteSecret ''manifold.supabase.publishableKey'',
                           DeleteSecret ''manifold.supabase.accessToken''])
   \<and> (\<not> absent (github_repo (resources (state_file r))) \<and> \<not> absent (vercel_project_id (resources (state_file r)))
       \<and> \<not> absent (supabase_url (credentials (state_file r)))
       \<and> \<not> absent (supabase_publishable_key (credentials (state_file r)))
    \<longrightarrow> snd (runEnvWiringPhase w root r) = Some (DeploymentPhase root)
        \<and> effects (fst (runEnvWiringPhase w root r))
            = effects r @ [WireEnvironment root
                             (the (supabase_url (credentials (state_file r))))
                             (the (supabase_publishable_key (credentials (state_file r))))
                             (the (github_repo (resources (state_file r))))
                             (the (vercel_project_id (resources (state_file r))))]
        \<and> state_file (fst (runEnvWiringPhase w root r))
            = (state_file r)\<lparr>current_phase := ''5_deploy'', status := In_progress\<rparr>
        \<and> written (fst (runEnvWiringPhase w root r))
            = written r @ [state_file (fst (runEnvWiringPhase w root r))])"
proof -
  have heal: "missing_values (state_file r) \<noteq> [] \<Longrightarrow>
      runEnvWiringPhase w root r =
        (do_patch reset_patch
           (do_effects [DeleteSecret ''manifold.supabase.pat'',
                        DeleteSecret ''manifold.supabase.projectUrl'',
                        DeleteSecret ''manifold.supabase.publishableKey'',
                        DeleteSecret ''manifold.supabase.accessToken''] r), Some AuthHandshake)"
    by (simp add: runEnvWiringPhase_def Let_def)
  have wire: "missing_values (state_file r) = [] \<Longrightarrow>
      runEnvWiringPhase w root r =
        (do_patch (phase_patch ''5_deploy'' In_progress)
           (do_effects [WireEnvironment root
                             (the (supabase_url (credentials (state_file r))))
                             (the (supabase_publishable_key (credentials (state_file r))))
                             (the (github_repo (resources (state_file r))))
                             (the (vercel_project_id (resources (state_file r))))] r),
         Some (DeploymentPhase root))"
    by (simp add: runEnvWiringPhase_def Let_def)
  have reset: "patch_next s reset_patch =
      s\<lparr>status := In_progress, current_phase := ''1_auth'',
        resources := \<lparr>github_repo = None, vercel_project_id = None, supabase_ref = None\<rparr>,
        credentials := \<lparr>vercel_token = None, supabase_access_token = None, supabase_url = None,
               supabase_publishable_key = None\<rparr>\<rparr>" for s
    by (simp add: patch_next_def reset_patch_def phase_patch_def no_patch_def spread_def
        spread_config_def spread_stack_def spread_resources_def spread_credentials_def)
  have advance: "patch_next s (phase_patch ''5_deploy'' In_progress) =
      s\<lparr>current_phase := ''5_deploy'', status := In_progress\<rparr>" for s
    by (simp add: patch_next_def phase_patch_def no_patch_def spread_def
        spread_config_def spread_stack_def spread_resources_def spread_credentials_def)
  show ?thesis
  proof (cases "missing_values (state_file r) = []")
    case True
    then have "\<not> (absent (github_repo (resources (state_file r))) \<or> absent (vercel_project_id (resources (state_file r)))
     \<or> absent (supabase_url (credentials (state_file r)))
     \<or> absent (supabase_publishable_key (credentials (state_file r))))"
      using missing_values_iff [of "state_file r"] by simp
    then show ?thesis
      by (simp add: wire [OF True] do_patch_simps do_effects_simps advance)
  next
    case False
    then have "absent (github_repo (resources (state_file r))) \<or> absent (vercel_project_id (resources (state_file r)))
     \<or> absent (supabase_url (credentials (state_file r)))
     \<or> absent (supabase_publishable_key (credentials (state_file r)))"
      using missing_values_iff [of "state_file r"] by simp
    then show ?thesis
      by (auto simp add: heal [OF False] do_patch_simps do_effects_simps reset)
  qed
qed

theorem env_wiring_self_heals_witness:
  "absent (vercel_project_id (resources (state_file unwired_run)))
   \<and> snd (runEnvWiringPhase demo_world ''/w/demo'' unwired_run) = Some AuthHandshake
   \<and> current_phase (state_file (fst (runEnvWiringPhase demo_world ''/w/demo'' unwired_run))) = ''1_auth''
   \<and> credentials (state_file (fst (runEnvWiringPhase demo_world ''/w/demo'' unwired_run)))
       = \<lparr>vercel_token = None, supabase_access_token = None, supabase_url = None,
          supabase_publishable_key = None\<rparr>
   \<and> effects (fst (runEnvWiringPhase demo_world ''/w/demo'' unwired_run))
       = [DeleteSecret ''manifold.supabase.pat'', DeleteSecret ''manifold.supabase.projectUrl'',
          DeleteSecret ''manifold.supabase.publishableKey'', DeleteSecret ''manifold.supabase.accessToken'']
   \<and> \<not> absent (vercel_project_id (resources (state_file wired_run)))
   \<and> snd (runEnvWiringPhase demo_world ''/w/demo'' wired_run) = Some (DeploymentPhase ''/w/demo'')
   \<and> effects (fst (runEnvWiringPhase demo_world ''/w/demo'' wired_run))
       = [WireEnvironment ''/w/demo'' ''https://abcdefghijklmnopqrst.supabase.co'' ''sb_publishable_0123''
            ''octo/demo'' ''demo'']
   \<and> current_phase (state_file (fst (runEnvWiringPhase demo_world ''/w/demo'' wired_run))) = ''5_deploy''"
  using env_wiring_self_heals [of unwired_run demo_world "''/w/demo''"]
    env_wiring_self_heals [of wired_run demo_world "''/w/demo''"]
  by (simp add: unwired_run_def wired_run_def createDefaultState_def absent_def)

















end
